theory Spec2Isabelle
  imports Complex_Main "HOL-Library.Multiset" "HOL-Library.Word"
begin

section \<open>Objects, pointers and the scene\<close>

text \<open>
  A pointer is an address; the null pointer is address 0 and pointers are compared
  (\<open><\<close>, \<open>==\<close>) as addresses.  Objects reached through a pointer live in a
  \<open>heap\<close>, one table per class; the render queue stores pointers only.
  A C++ \<open>float\<close> is idealised as a \<open>real\<close>: rounding, infinities and NaN are not
  represented.  \<open>std::tan\<close> is not idealised: the tangent of the reals has poles where
  the function on floats has (large) values, so it is a parameter of the functions that
  call it, and what is proved of them holds for every tangent function.
\<close>

type_synonym addr = nat

definition nullptr :: addr where
  "nullptr = 0"

type_synonym NzVector3f = "real \<times> real \<times> real"
type_synonym NzVector2f = "real \<times> real"
type_synonym NzQuaternionf = "real \<times> real \<times> real \<times> real"
type_synonym NzColor = "8 word \<times> 8 word \<times> 8 word \<times> 8 word"

text \<open>Config.hpp: \<^verbatim>\<open>#define NAZARA_GRAPHICS_SAFE 1\<close>.\<close>

definition NAZARA_GRAPHICS_SAFE :: bool where
  "NAZARA_GRAPHICS_SAFE = True"

text \<open>Enums.hpp: \<^verbatim>\<open>enum nzLightType\<close>.  A variable of the enum type can hold other
  integers as well, which is what the \<open>default\<close> branches of the source are for.\<close>

definition nzLightType_Directional :: int where
  "nzLightType_Directional = 0"

definition nzLightType_Point :: int where
  "nzLightType_Point = 1"

definition nzLightType_Spot :: int where
  "nzLightType_Spot = 2"

text \<open>Everything the source reports through \<open>NazaraError\<close>, in the order reported.\<close>

datatype error =
    Invalid_drawable
  | Invalid_light
  | Invalid_model
  | Model_is_not_drawable
  | Skeletal_mesh_not_supported
  | Light_type_not_handled int
  | Invalid_light_type int


section \<open>The light node (Light.cpp)\<close>

subsection \<open>Vectors, boxes and bounding volumes\<close>

text \<open>Modelled from the spec: the operators of \<open>NzVector3f\<close> the light uses (the math
  module is not under src/): scaling, sum, difference and negation, componentwise, and
  the componentwise minimum and maximum that boxes are built with.\<close>

definition vec_scale :: "NzVector3f \<Rightarrow> real \<Rightarrow> NzVector3f" where
  "vec_scale v k = (fst v * k, fst (snd v) * k, snd (snd v) * k)"

definition vec_add :: "NzVector3f \<Rightarrow> NzVector3f \<Rightarrow> NzVector3f" where
  "vec_add v w = (fst v + fst w, fst (snd v) + fst (snd w), snd (snd v) + snd (snd w))"

definition vec_sub :: "NzVector3f \<Rightarrow> NzVector3f \<Rightarrow> NzVector3f" where
  "vec_sub v w = (fst v - fst w, fst (snd v) - fst (snd w), snd (snd v) - snd (snd w))"

definition vec_neg :: "NzVector3f \<Rightarrow> NzVector3f" where
  "vec_neg v = (- fst v, - fst (snd v), - snd (snd v))"

definition vec_min :: "NzVector3f \<Rightarrow> NzVector3f \<Rightarrow> NzVector3f" where
  "vec_min v w = (min (fst v) (fst w), min (fst (snd v)) (fst (snd w)), min (snd (snd v)) (snd (snd w)))"

definition vec_max :: "NzVector3f \<Rightarrow> NzVector3f \<Rightarrow> NzVector3f" where
  "vec_max v w = (max (fst v) (fst w), max (fst (snd v)) (fst (snd w)), max (snd (snd v)) (snd (snd w)))"

definition NzVector3f_Zero :: NzVector3f where
  "NzVector3f_Zero = (0, 0, 0)"

text \<open>
  The unit axes \<open>NzVector3f::Forward()\<close>, \<open>Left()\<close> and \<open>Up()\<close> and the rotation of a
  vector by a quaternion (\<open>m_derivedRotation * v\<close>) belong to the math module, which is not
  under src/, and \<open>std::tan\<close> to the C++ library: they are parameters of the functions
  that use them.
\<close>

record vector_math =
  Forward :: NzVector3f
  Left :: NzVector3f
  Up :: NzVector3f
  Rotate :: "NzQuaternionf \<Rightarrow> NzVector3f \<Rightarrow> NzVector3f"
  Tan :: "real \<Rightarrow> real"

text \<open>Modelled from the spec: \<open>NzDegreeToRadian\<close> (Math/Basic.hpp is not under src/),
  which gives the "angle in radians" of an angle stored in degrees.\<close>

definition NzDegreeToRadian :: "real \<Rightarrow> real" where
  "NzDegreeToRadian degrees = degrees * (pi / 180)"

text \<open>Modelled from the spec: \<open>NzBoxf\<close> (not under src/), an axis-aligned box given by its
  two extreme corners.  \<open>NzBoxf_at p\<close> is the degenerate box at a point, \<open>NzBoxf_Set\<close> the
  box spanned by two corners, and \<open>ExtendTo\<close> enlarges a box just enough to hold one more
  point.\<close>

record NzBoxf =
  box_minimum :: NzVector3f
  box_maximum :: NzVector3f

definition NzBoxf_at :: "NzVector3f \<Rightarrow> NzBoxf" where
  "NzBoxf_at p = \<lparr>box_minimum = p, box_maximum = p\<rparr>"

definition NzBoxf_Set :: "NzVector3f \<Rightarrow> NzVector3f \<Rightarrow> NzBoxf" where
  "NzBoxf_Set vec1 vec2 = \<lparr>box_minimum = vec_min vec1 vec2, box_maximum = vec_max vec1 vec2\<rparr>"

definition ExtendTo :: "NzVector3f \<Rightarrow> NzBoxf \<Rightarrow> NzBoxf" where
  "ExtendTo p box = \<lparr>box_minimum = vec_min (box_minimum box) p, box_maximum = vec_max (box_maximum box) p\<rparr>"

text \<open>The two matrices the light builds, each kept as the call that builds it:
  \<open>NzMatrix4f::Translate(position)\<close> and \<open>NzMatrix4f::Transform(position, rotation)\<close>.\<close>

datatype NzMatrix4f =
    NzMatrix4f_Translate NzVector3f
  | NzMatrix4f_Transform NzVector3f NzQuaternionf

text \<open>
  Modelled from the spec: \<open>NzBoundingVolumef\<close> (not under src/).  A volume is null,
  infinite, or finite; a finite one caches its local-space box, and \<open>Update\<close> places that
  box in world space anew with the matrix given (none before the first \<open>Update\<close>), which
  is how the placement can be reapplied without the shape being recomputed.
\<close>

datatype NzBoundingVolumef =
    Volume_Null
  | Volume_Infinite
  | Volume_Finite NzBoxf "NzMatrix4f option"

definition IsNull :: "NzBoundingVolumef \<Rightarrow> bool" where
  "IsNull v = (v = Volume_Null)"

definition MakeNull :: "NzBoundingVolumef \<Rightarrow> NzBoundingVolumef" where
  "MakeNull v = Volume_Null"

definition MakeInfinite :: "NzBoundingVolumef \<Rightarrow> NzBoundingVolumef" where
  "MakeInfinite v = Volume_Infinite"

definition Set_box :: "NzBoxf \<Rightarrow> NzBoundingVolumef \<Rightarrow> NzBoundingVolumef" where
  "Set_box box v = Volume_Finite box None"

definition Set_corners :: "NzVector3f \<Rightarrow> NzVector3f \<Rightarrow> NzBoundingVolumef \<Rightarrow> NzBoundingVolumef" where
  "Set_corners vec1 vec2 v = Volume_Finite (NzBoxf_Set vec1 vec2) None"

fun Update :: "NzMatrix4f \<Rightarrow> NzBoundingVolumef \<Rightarrow> NzBoundingVolumef" where
  "Update transformMatrix (Volume_Finite box placed) = Volume_Finite box (Some transformMatrix)"
| "Update transformMatrix Volume_Null = Volume_Null"
| "Update transformMatrix Volume_Infinite = Volume_Infinite"

record NzSpheref =
  sphere_center :: NzVector3f
  sphere_radius :: real

text \<open>The frustum is the culling oracle: its two \<open>Contains\<close> overloads.\<close>

record NzFrustumf =
  Contains_sphere :: "NzSpheref \<Rightarrow> bool"
  Contains_volume :: "NzBoundingVolumef \<Rightarrow> bool"

subsection \<open>The light\<close>

text \<open>
  The members of \<open>NzLight\<close>, after those of its base \<open>NzSceneNode\<close> that it reads:
  the cached derived transform and its flag.  \<open>world_position\<close> and \<open>world_rotation\<close>
  stand for the rest of the node: the world transform that composing its local transform
  with its ancestors' gives.
\<close>

record NzLight =
  world_position :: NzVector3f
  world_rotation :: NzQuaternionf
  m_derivedUpdated :: bool
  m_derivedPosition :: NzVector3f
  m_derivedRotation :: NzQuaternionf
  m_type :: int
  m_boundingVolume :: NzBoundingVolumef
  m_color :: NzColor
  m_boundingVolumeUpdated :: bool
  m_ambientFactor :: real
  m_attenuation :: real
  m_diffuseFactor :: real
  m_innerAngle :: real
  m_outerAngle :: real
  m_radius :: real

text \<open>Modelled from the spec: \<open>NzNode::UpdateDerived\<close> and \<open>NzSceneNode::Invalidate\<close>
  (the base classes are not under src/).  The first caches the derived world transform
  and marks it up to date, the second marks it stale.\<close>

definition UpdateDerived :: "NzLight \<Rightarrow> NzLight" where
  "UpdateDerived l = l\<lparr>m_derivedPosition := world_position l,
                       m_derivedRotation := world_rotation l,
                       m_derivedUpdated := True\<rparr>"

definition NzSceneNode_Invalidate :: "NzLight \<Rightarrow> NzLight" where
  "NzSceneNode_Invalidate l = l\<lparr>m_derivedUpdated := False\<rparr>"

definition GetLightType :: "NzLight \<Rightarrow> int" where
  "GetLightType l = m_type l"

definition SetAmbientFactor :: "real \<Rightarrow> NzLight \<Rightarrow> NzLight" where
  "SetAmbientFactor factor l = l\<lparr>m_ambientFactor := factor\<rparr>"

definition SetAttenuation :: "real \<Rightarrow> NzLight \<Rightarrow> NzLight" where
  "SetAttenuation attenuation l = l\<lparr>m_attenuation := attenuation\<rparr>"

definition SetColor :: "NzColor \<Rightarrow> NzLight \<Rightarrow> NzLight" where
  "SetColor color l = l\<lparr>m_color := color\<rparr>"

definition SetDiffuseFactor :: "real \<Rightarrow> NzLight \<Rightarrow> NzLight" where
  "SetDiffuseFactor factor l = l\<lparr>m_diffuseFactor := factor\<rparr>"

definition SetInnerAngle :: "real \<Rightarrow> NzLight \<Rightarrow> NzLight" where
  "SetInnerAngle innerAngle l = l\<lparr>m_innerAngle := innerAngle\<rparr>"

definition SetLightType :: "int \<Rightarrow> NzLight \<Rightarrow> NzLight" where
  "SetLightType type l = l\<lparr>m_type := type\<rparr>"

definition SetOuterAngle :: "real \<Rightarrow> NzLight \<Rightarrow> NzLight" where
  "SetOuterAngle outerAngle l =
     l\<lparr>m_outerAngle := outerAngle,
       m_boundingVolume := MakeNull (m_boundingVolume l),
       m_boundingVolumeUpdated := False\<rparr>"

definition SetRadius :: "real \<Rightarrow> NzLight \<Rightarrow> NzLight" where
  "SetRadius radius l =
     l\<lparr>m_radius := radius,
       m_boundingVolume := MakeNull (m_boundingVolume l),
       m_boundingVolumeUpdated := False\<rparr>"

definition Invalidate :: "NzLight \<Rightarrow> NzLight" where
  "Invalidate l = (NzSceneNode_Invalidate l)\<lparr>m_boundingVolumeUpdated := False\<rparr>"

text \<open>\<open>UpdateBoundingVolume\<close>, in the two parts of its body.  The first switch runs when
  the cached volume is null and builds the local shape; its Directional case returns from
  the function (\<open>True\<close> in the first component).\<close>

definition UpdateBoundingVolume_shape :: "vector_math \<Rightarrow> NzLight \<Rightarrow> bool \<times> NzLight" where
  "UpdateBoundingVolume_shape vm l =
     (if m_type l = nzLightType_Directional then
        (True, l\<lparr>m_boundingVolume := MakeInfinite (m_boundingVolume l),
                 m_boundingVolumeUpdated := True\<rparr>)
      else if m_type l = nzLightType_Point then
        (let radius = (m_radius l, m_radius l, m_radius l)
         in (False, l\<lparr>m_boundingVolume := Set_corners (vec_neg radius) radius (m_boundingVolume l)\<rparr>))
      else if m_type l = nzLightType_Spot then
        (let box = NzBoxf_at NzVector3f_Zero;
             base = vec_scale (Forward vm) (m_radius l);
             radius = m_radius l * Tan vm (NzDegreeToRadian (m_outerAngle l));
             lExtend = vec_scale (Left vm) radius;
             uExtend = vec_scale (Up vm) radius;
             box = ExtendTo (vec_add (vec_add base lExtend) uExtend) box;
             box = ExtendTo (vec_sub (vec_add base lExtend) uExtend) box;
             box = ExtendTo (vec_add (vec_sub base lExtend) uExtend) box;
             box = ExtendTo (vec_sub (vec_sub base lExtend) uExtend) box
         in (False, l\<lparr>m_boundingVolume := Set_box box (m_boundingVolume l)\<rparr>))
      else (False, l))"

definition UpdateBoundingVolume_place :: "NzLight \<Rightarrow> NzLight" where
  "UpdateBoundingVolume_place l =
     (let l = (if m_type l = nzLightType_Directional then l
               else if m_type l = nzLightType_Point then
                 (let l = (if \<not> m_derivedUpdated l then UpdateDerived l else l)
                  in l\<lparr>m_boundingVolume :=
                        Update (NzMatrix4f_Translate (m_derivedPosition l)) (m_boundingVolume l)\<rparr>)
               else if m_type l = nzLightType_Spot then
                 (let l = (if \<not> m_derivedUpdated l then UpdateDerived l else l)
                  in l\<lparr>m_boundingVolume :=
                        Update (NzMatrix4f_Transform (m_derivedPosition l) (m_derivedRotation l))
                          (m_boundingVolume l)\<rparr>)
               else l)
      in l\<lparr>m_boundingVolumeUpdated := True\<rparr>)"

definition UpdateBoundingVolume :: "vector_math \<Rightarrow> NzLight \<Rightarrow> NzLight" where
  "UpdateBoundingVolume vm l =
     (if IsNull (m_boundingVolume l) then
        (let r = UpdateBoundingVolume_shape vm l
         in if fst r then snd r else UpdateBoundingVolume_place (snd r))
      else UpdateBoundingVolume_place l)"

text \<open>The accessors that fill a cache return the light as they leave it.\<close>

definition GetBoundingVolume :: "vector_math \<Rightarrow> NzLight \<Rightarrow> NzBoundingVolumef \<times> NzLight" where
  "GetBoundingVolume vm l =
     (let l = (if \<not> m_boundingVolumeUpdated l then UpdateBoundingVolume vm l else l)
      in (m_boundingVolume l, l))"

text \<open>\<open>FrustumCull\<close>: the answer, the errors reported, and the light.\<close>

definition FrustumCull :: "vector_math \<Rightarrow> NzFrustumf \<Rightarrow> NzLight \<Rightarrow> bool \<times> error list \<times> NzLight" where
  "FrustumCull vm frustum l =
     (if m_type l = nzLightType_Directional then (True, [], l)
      else if m_type l = nzLightType_Point then
        (let l = (if \<not> m_derivedUpdated l then UpdateDerived l else l)
         in (Contains_sphere frustum
               \<lparr>sphere_center = m_derivedPosition l, sphere_radius = m_radius l\<rparr>, [], l))
      else if m_type l = nzLightType_Spot then
        (let l = (if \<not> m_boundingVolumeUpdated l then UpdateBoundingVolume vm l else l)
         in (Contains_volume frustum (m_boundingVolume l), [], l))
      else (False, [Invalid_light_type (m_type l)], l))"

subsection \<open>Uploading the light to a shader program\<close>

text \<open>
  \<open>NzShaderProgram\<close> is not under src/.  Its \<open>GetUniformLocation\<close> is a field of the
  program (an \<open>int\<close>, here a 32-bit word, for which the \<open>+\<close>, \<open>-\<close> and \<open>*\<close> of
  the offset computation wrap around), and \<open>Enable\<close> returns the \<open>Send\<close> calls it
  makes, in order.  A four-component vector is kept as the constructor call that builds it.
  \<open>1.f/m_radius\<close> is the quotient of reals, which is 0 where the float is infinite (for
  the radius 0); no theorem below depends on the values sent.
\<close>

record NzShaderProgram =
  GetUniformLocation :: "string \<Rightarrow> 32 word"

datatype NzVector4f =
    NzVector4f_xyzw real real real real
  | NzVector4f_vec3 NzVector3f
  | NzVector4f_vec3_w NzVector3f real

datatype uniform_call =
    SendInteger "32 word" int
  | SendColor "32 word" NzColor
  | SendVector2 "32 word" NzVector2f
  | SendVector4 "32 word" NzVector4f

fun call_location :: "uniform_call \<Rightarrow> 32 word" where
  "call_location (SendInteger location v) = location"
| "call_location (SendColor location v) = location"
| "call_location (SendVector2 location v) = location"
| "call_location (SendVector4 location v) = location"

text \<open>Modelled from the spec: the upload mechanics.  The uniforms of a program map a
  location to the call that last wrote it, and a call replaces what its location
  held.\<close>

type_synonym uniforms = "32 word \<Rightarrow> uniform_call option"

definition upload :: "uniform_call list \<Rightarrow> uniforms \<Rightarrow> uniforms" where
  "upload calls u = foldl (\<lambda>u c. u(call_location c \<mapsto> c)) u calls"

text \<open>The six locations of the slot \<open>lightUnit\<close>, as the first part of \<open>Enable\<close>
  computes them.\<close>

record light_locations =
  typeLocation :: "32 word"
  colorLocation :: "32 word"
  factorsLocation :: "32 word"
  parameters1Location :: "32 word"
  parameters2Location :: "32 word"
  parameters3Location :: "32 word"

definition Enable_locations :: "NzShaderProgram \<Rightarrow> 32 word \<Rightarrow> light_locations" where
  "Enable_locations program lightUnit =
     (let typeLocation = GetUniformLocation program ''Lights[0].type'';
          colorLocation = GetUniformLocation program ''Lights[0].color'';
          factorsLocation = GetUniformLocation program ''Lights[0].factors'';
          parameters1Location = GetUniformLocation program ''Lights[0].parameters1'';
          parameters2Location = GetUniformLocation program ''Lights[0].parameters2'';
          parameters3Location = GetUniformLocation program ''Lights[0].parameters3''
      in if 0 < lightUnit then
           (let type2Location = GetUniformLocation program ''Lights[1].type'';
                offset = lightUnit * (type2Location - typeLocation)
            in \<lparr>typeLocation = typeLocation + offset,
                colorLocation = colorLocation + offset,
                factorsLocation = factorsLocation + offset,
                parameters1Location = parameters1Location + offset,
                parameters2Location = parameters2Location + offset,
                parameters3Location = parameters3Location + offset\<rparr>)
         else
           \<lparr>typeLocation = typeLocation,
            colorLocation = colorLocation,
            factorsLocation = factorsLocation,
            parameters1Location = parameters1Location,
            parameters2Location = parameters2Location,
            parameters3Location = parameters3Location\<rparr>)"

definition Enable :: "vector_math \<Rightarrow> NzShaderProgram \<Rightarrow> 32 word \<Rightarrow> NzLight \<Rightarrow> uniform_call list \<times> NzLight" where
  "Enable vm program lightUnit l =
     (let loc = Enable_locations program lightUnit;
          calls = [SendInteger (typeLocation loc) (m_type l),
                   SendColor (colorLocation loc) (m_color l),
                   SendVector2 (factorsLocation loc) (m_ambientFactor l, m_diffuseFactor l)];
          l = (if \<not> m_derivedUpdated l then UpdateDerived l else l)
      in if m_type l = nzLightType_Directional then
           (calls @
              [SendVector4 (parameters1Location loc)
                 (NzVector4f_vec3 (Rotate vm (m_derivedRotation l) (Forward vm)))], l)
         else if m_type l = nzLightType_Point then
           (calls @
              [SendVector4 (parameters1Location loc)
                 (NzVector4f_vec3_w (m_derivedPosition l) (m_attenuation l)),
               SendVector4 (parameters2Location loc)
                 (NzVector4f_xyzw 0 0 0 (1 / m_radius l))], l)
         else if m_type l = nzLightType_Spot then
           (calls @
              [SendVector4 (parameters1Location loc)
                 (NzVector4f_vec3_w (m_derivedPosition l) (m_attenuation l)),
               SendVector4 (parameters2Location loc)
                 (NzVector4f_vec3_w (Rotate vm (m_derivedRotation l) (Forward vm)) (1 / m_radius l)),
               SendVector2 (parameters3Location loc)
                 (cos (NzDegreeToRadian (m_innerAngle l)), cos (NzDegreeToRadian (m_outerAngle l)))], l)
         else (calls, l))"

section \<open>Shared objects the queue reads through pointers\<close>

record NzIndexBuffer =
  ib_GetBuffer :: addr

record NzVertexBuffer =
  vb_GetBuffer :: addr

datatype nzAnimationType = nzAnimationType_Skeletal | nzAnimationType_Static

text \<open>A sub-mesh (\<open>NzSubMesh\<close>, with its subclasses \<open>NzStaticMesh\<close> and
  \<open>NzSkeletalMesh\<close>): the getters the queue calls.  \<open>GetIndexBuffer\<close> may return the
  null pointer; \<open>GetVertexBuffer\<close> is dereferenced unchecked by the source.\<close>

record NzSubMesh =
  GetAnimationType :: nzAnimationType
  GetMaterialIndex :: nat
  GetIndexBuffer :: addr
  GetVertexBuffer :: addr

record NzMaterial =
  GetCustomShader :: addr
  GetShaderFlags :: "32 word"
  IsAlphaBlendingEnabled :: bool

text \<open>\<open>NzMesh\<close>: \<open>GetSubMeshCount()\<close> and \<open>GetSubMesh(i)\<close> read the list of its
  sub-meshes.\<close>

record NzMesh =
  subMeshes :: "addr list"

definition GetSubMeshCount :: "NzMesh \<Rightarrow> nat" where
  "GetSubMeshCount mesh = length (subMeshes mesh)"

definition GetSubMesh :: "NzMesh \<Rightarrow> nat \<Rightarrow> addr" where
  "GetSubMesh mesh i = subMeshes mesh ! i"

text \<open>\<open>NzModel\<close>, with its transform matrix of type \<open>'mat\<close> (an \<open>NzMatrix4f\<close>, which the
  queue only copies).\<close>

record 'mat NzModel =
  IsDrawable :: bool
  GetTransformMatrix :: 'mat
  GetMesh :: addr
  GetMaterial :: "nat \<Rightarrow> addr"

record 'mat heap =
  light_at :: "addr \<Rightarrow> NzLight"
  model_at :: "addr \<Rightarrow> 'mat NzModel"
  mesh_at :: "addr \<Rightarrow> NzMesh"
  subMesh_at :: "addr \<Rightarrow> NzSubMesh"
  indexBuffer_at :: "addr \<Rightarrow> NzIndexBuffer"
  vertexBuffer_at :: "addr \<Rightarrow> NzVertexBuffer"
  material_at :: "addr \<Rightarrow> NzMaterial"

section \<open>The forward render queue (ForwardRenderQueue.cpp)\<close>

subsection \<open>The comparators of the grouping maps\<close>

definition SkeletalMeshComparator :: "'mat heap \<Rightarrow> addr \<Rightarrow> addr \<Rightarrow> bool" where
  "SkeletalMeshComparator h subMesh1 subMesh2 =
     (let iBuffer1 = GetIndexBuffer (subMesh_at h subMesh1);
          buffer1 = (if iBuffer1 \<noteq> nullptr then ib_GetBuffer (indexBuffer_at h iBuffer1) else nullptr);
          iBuffer2 = GetIndexBuffer (subMesh_at h subMesh1);
          buffer2 = (if iBuffer2 \<noteq> nullptr then ib_GetBuffer (indexBuffer_at h iBuffer2) else nullptr)
      in if buffer1 = buffer2 then subMesh1 < subMesh2 else buffer2 < buffer2)"

definition StaticMeshComparator :: "'mat heap \<Rightarrow> addr \<Rightarrow> addr \<Rightarrow> bool" where
  "StaticMeshComparator h subMesh1 subMesh2 =
     (let iBuffer1 = GetIndexBuffer (subMesh_at h subMesh1);
          buffer1 = (if iBuffer1 \<noteq> nullptr then ib_GetBuffer (indexBuffer_at h iBuffer1) else nullptr);
          iBuffer2 = GetIndexBuffer (subMesh_at h subMesh1);
          buffer2 = (if iBuffer2 \<noteq> nullptr then ib_GetBuffer (indexBuffer_at h iBuffer2) else nullptr)
      in if buffer1 = buffer2 then
           (let buffer1 = vb_GetBuffer (vertexBuffer_at h (GetVertexBuffer (subMesh_at h subMesh1)));
                buffer2 = vb_GetBuffer (vertexBuffer_at h (GetVertexBuffer (subMesh_at h subMesh2)))
            in if buffer1 = buffer2 then subMesh1 < subMesh2 else buffer1 < buffer2)
         else buffer1 < buffer2)"

definition MaterialComparator :: "'mat heap \<Rightarrow> addr \<Rightarrow> addr \<Rightarrow> bool" where
  "MaterialComparator h mat1 mat2 =
     (let shader1 = GetCustomShader (material_at h mat1);
          shader2 = GetCustomShader (material_at h mat2)
      in if shader1 \<noteq> nullptr then
           (if shader2 \<noteq> nullptr then
              (if shader1 \<noteq> shader2 then shader1 < shader2 else mat1 < mat2)
            else True)
         else if shader2 \<noteq> nullptr then False
         else
           (let shaderFlags1 = GetShaderFlags (material_at h mat1);
                shaderFlags2 = GetShaderFlags (material_at h mat2)
            in if shaderFlags1 \<noteq> shaderFlags2 then shaderFlags1 < shaderFlags2 else mat1 < mat2))"

text \<open>The orders the specification describes, written from its words, to compare the
  comparators with.\<close>

definition index_storage :: "'mat heap \<Rightarrow> addr \<Rightarrow> addr" where
  "index_storage h subMesh =
     (let iBuffer = GetIndexBuffer (subMesh_at h subMesh)
      in if iBuffer \<noteq> nullptr then ib_GetBuffer (indexBuffer_at h iBuffer) else nullptr)"

definition vertex_storage :: "'mat heap \<Rightarrow> addr \<Rightarrow> addr" where
  "vertex_storage h subMesh = vb_GetBuffer (vertexBuffer_at h (GetVertexBuffer (subMesh_at h subMesh)))"

definition static_mesh_order_spec :: "'mat heap \<Rightarrow> addr \<Rightarrow> addr \<Rightarrow> bool" where
  "static_mesh_order_spec h subMesh1 subMesh2 =
     (if index_storage h subMesh1 \<noteq> index_storage h subMesh2
        then index_storage h subMesh1 < index_storage h subMesh2
      else if vertex_storage h subMesh1 \<noteq> vertex_storage h subMesh2
        then vertex_storage h subMesh1 < vertex_storage h subMesh2
      else subMesh1 < subMesh2)"

definition skeletal_mesh_order_spec :: "'mat heap \<Rightarrow> addr \<Rightarrow> addr \<Rightarrow> bool" where
  "skeletal_mesh_order_spec h subMesh1 subMesh2 =
     (if index_storage h subMesh1 \<noteq> index_storage h subMesh2
        then index_storage h subMesh1 < index_storage h subMesh2
      else subMesh1 < subMesh2)"

definition has_custom_shader :: "'mat heap \<Rightarrow> addr \<Rightarrow> bool" where
  "has_custom_shader h mat = (GetCustomShader (material_at h mat) \<noteq> nullptr)"

definition material_order_spec :: "'mat heap \<Rightarrow> addr \<Rightarrow> addr \<Rightarrow> bool" where
  "material_order_spec h mat1 mat2 =
     (if has_custom_shader h mat1 \<and> \<not> has_custom_shader h mat2 then True
      else if \<not> has_custom_shader h mat1 \<and> has_custom_shader h mat2 then False
      else if has_custom_shader h mat1 \<and> has_custom_shader h mat2
              \<and> GetCustomShader (material_at h mat1) \<noteq> GetCustomShader (material_at h mat2)
        then GetCustomShader (material_at h mat1) < GetCustomShader (material_at h mat2)
      else if \<not> has_custom_shader h mat1 \<and> \<not> has_custom_shader h mat2
              \<and> GetShaderFlags (material_at h mat1) \<noteq> GetShaderFlags (material_at h mat2)
        then GetShaderFlags (material_at h mat1) < GetShaderFlags (material_at h mat2)
      else mat1 < mat2)"

text \<open>A strict total order on pointers: irreflexive, transitive, and any two different
  pointers are ordered one way or the other.\<close>

definition strict_total_order :: "(addr \<Rightarrow> addr \<Rightarrow> bool) \<Rightarrow> bool" where
  "strict_total_order cmp \<longleftrightarrow>
     (\<forall>a. \<not> cmp a a) \<and>
     (\<forall>a b c. cmp a b \<longrightarrow> cmp b c \<longrightarrow> cmp a c) \<and>
     (\<forall>a b. a \<noteq> b \<longrightarrow> cmp a b \<or> cmp b a)"


subsection \<open>The containers\<close>

text \<open>
  A \<open>std::map<K, V, Compare>\<close> is the list of its entries in iteration order, ascending
  by the comparator.  \<open>std_map_at cmp k d f m\<close> is the statement \<open>f(m[k])\<close>:
  \<open>operator[]\<close> looks for the entry whose key is equivalent to \<open>k\<close> (neither is ordered
  before the other), inserts one holding the value-initialised \<open>d\<close> at its place in the
  order when there is none, and \<open>f\<close> is what the caller then does to the mapped value.
  \<open>std_map_find\<close> is \<open>find\<close>.
\<close>

fun std_map_at :: "('k \<Rightarrow> 'k \<Rightarrow> bool) \<Rightarrow> 'k \<Rightarrow> 'v \<Rightarrow> ('v \<Rightarrow> 'v) \<Rightarrow> ('k \<times> 'v) list \<Rightarrow> ('k \<times> 'v) list" where
  "std_map_at cmp k d f [] = [(k, f d)]"
| "std_map_at cmp k d f ((k', v) # m) =
     (if cmp k k' then (k, f d) # (k', v) # m
      else if cmp k' k then (k', v) # std_map_at cmp k d f m
      else (k', f v) # m)"

fun std_map_find :: "('k \<Rightarrow> 'k \<Rightarrow> bool) \<Rightarrow> 'k \<Rightarrow> ('k \<times> 'v) list \<Rightarrow> 'v option" where
  "std_map_find cmp k [] = None"
| "std_map_find cmp k ((k', v) # m) =
     (if cmp k k' then None
      else if cmp k' k then std_map_find cmp k m
      else Some v)"

record 'mat TransparentSkeletalModel =
  skeletal_material :: addr
  skeletal_mesh :: addr
  skeletal_transformMatrix :: 'mat

record 'mat TransparentStaticModel =
  static_material :: addr
  static_mesh :: addr
  static_transformMatrix :: 'mat

text \<open>The value of a \<open>visibleModels\<close> entry is a pair whose \<open>second\<close> is the map from
  static mesh to the transform matrices submitted for it; the code under src/ never
  touches \<open>first\<close> (the skeletal meshes' container), kept here as a list that stays
  empty.\<close>

type_synonym 'mat StaticMeshContainer = "(addr \<times> 'mat list) list"
type_synonym 'mat MeshContainer = "(addr \<times> (addr \<times> 'mat list) list \<times> 'mat StaticMeshContainer) list"

record 'mat NzForwardRenderQueue =
  directionnalLights :: "addr list"
  otherDrawables :: "addr list"
  visibleLights :: "addr list"
  visibleModels :: "'mat MeshContainer"
  visibleTransparentsModels :: "(nat \<times> bool) list"
  transparentSkeletalModels :: "'mat TransparentSkeletalModel list"
  transparentStaticModels :: "'mat TransparentStaticModel list"

subsection \<open>Submission\<close>

text \<open>Every operation returns the errors it reported and the queue it leaves.\<close>

definition AddDrawable :: "addr \<Rightarrow> 'mat NzForwardRenderQueue \<Rightarrow> error list \<times> 'mat NzForwardRenderQueue" where
  "AddDrawable drawable q =
     (if NAZARA_GRAPHICS_SAFE \<and> drawable = nullptr then ([Invalid_drawable], q)
      else ([], q\<lparr>otherDrawables := otherDrawables q @ [drawable]\<rparr>))"

text \<open>\<open>NAZARA_DEBUG\<close> is a build flag, a parameter here: the \<open>default\<close> branch of the
  switch exists in debug builds only.\<close>

definition AddLight :: "bool \<Rightarrow> 'mat heap \<Rightarrow> addr \<Rightarrow> 'mat NzForwardRenderQueue \<Rightarrow> error list \<times> 'mat NzForwardRenderQueue" where
  "AddLight NAZARA_DEBUG h light q =
     (if NAZARA_GRAPHICS_SAFE \<and> light = nullptr then ([Invalid_light], q)
      else let type = GetLightType (light_at h light) in
        if type = nzLightType_Directional then
          ([], q\<lparr>directionnalLights := directionnalLights q @ [light]\<rparr>)
        else if type = nzLightType_Point \<or> type = nzLightType_Spot then
          ([], q\<lparr>visibleLights := visibleLights q @ [light]\<rparr>)
        else if NAZARA_DEBUG then ([Light_type_not_handled type], q)
        else ([], q))"

text \<open>The body of the loop of \<open>AddModel\<close> over the sub-meshes, threading the errors
  reported so far and the queue.  \<open>resize(index+1)\<close> followed by the assignments to
  \<open>back()\<close> appends the record; \<open>index\<close> is a natural number (the wrap-around of the
  \<open>unsigned int\<close> past \<open>2^32\<close> records is left out).\<close>

definition AddModel_subMesh ::
  "'mat heap \<Rightarrow> 'mat NzModel \<Rightarrow> error list \<times> 'mat NzForwardRenderQueue \<Rightarrow> addr
     \<Rightarrow> error list \<times> 'mat NzForwardRenderQueue" where
  "AddModel_subMesh h model st subMesh =
     (let errs = fst st; q = snd st;
          transformMatrix = GetTransformMatrix model;
          material = GetMaterial model (GetMaterialIndex (subMesh_at h subMesh))
      in case GetAnimationType (subMesh_at h subMesh) of
           nzAnimationType_Skeletal \<Rightarrow> (errs @ [Skeletal_mesh_not_supported], q)
         | nzAnimationType_Static \<Rightarrow>
             (let staticMesh = subMesh in
              if IsAlphaBlendingEnabled (material_at h material) then
                (let index = length (transparentStaticModels q);
                     data = \<lparr>static_material = material, static_mesh = staticMesh,
                             static_transformMatrix = transformMatrix\<rparr>
                 in (errs, q\<lparr>transparentStaticModels := transparentStaticModels q @ [data],
                              visibleTransparentsModels := visibleTransparentsModels q @ [(index, True)]\<rparr>))
              else
                (errs, q\<lparr>visibleModels :=
                   std_map_at (MaterialComparator h) material ([], [])
                     (\<lambda>entry. (fst entry,
                        std_map_at (StaticMeshComparator h) staticMesh []
                          (\<lambda>matrices. matrices @ [transformMatrix]) (snd entry)))
                     (visibleModels q)\<rparr>)))"

definition AddModel :: "'mat heap \<Rightarrow> addr \<Rightarrow> 'mat NzForwardRenderQueue \<Rightarrow> error list \<times> 'mat NzForwardRenderQueue" where
  "AddModel h model q =
     (if NAZARA_GRAPHICS_SAFE \<and> model = nullptr then ([Invalid_model], q)
      else if NAZARA_GRAPHICS_SAFE \<and> \<not> IsDrawable (model_at h model) then ([Model_is_not_drawable], q)
      else
        (let mesh = mesh_at h (GetMesh (model_at h model));
             submeshCount = GetSubMeshCount mesh
         in foldl (AddModel_subMesh h (model_at h model)) ([], q)
              (map (GetSubMesh mesh) [0..<submeshCount])))"

definition Clear :: "'mat NzForwardRenderQueue \<Rightarrow> 'mat NzForwardRenderQueue" where
  "Clear q = q\<lparr>directionnalLights := [], otherDrawables := [], visibleLights := [],
               visibleModels := [], visibleTransparentsModels := [],
               transparentSkeletalModels := [], transparentStaticModels := []\<rparr>"

subsection \<open>Sorting the transparent models\<close>

text \<open>
  The camera is used for one thing:
  \<open>camera.GetFrustum().GetPlane(nzFrustumPlane_Near).Distance(m.GetTranslation())\<close>,
  the distance of the translation of a matrix \<open>m\<close> to its near plane.  \<open>NzCamera\<close>,
  \<open>NzFrustum\<close>, \<open>NzPlane\<close> and \<open>NzMatrix4\<close> are not under src/, so that composite is the
  camera's one field.
\<close>

record 'mat NzCamera =
  NearPlaneDistance :: "'mat \<Rightarrow> real"

definition TransparentModelComparator ::
  "'mat NzForwardRenderQueue \<Rightarrow> ('mat \<Rightarrow> real) \<Rightarrow> nat \<times> bool \<Rightarrow> nat \<times> bool \<Rightarrow> bool" where
  "TransparentModelComparator queue nearPlaneDistance index1 index2 =
     (let matrix1 = (if snd index1
                     then static_transformMatrix (transparentStaticModels queue ! fst index1)
                     else skeletal_transformMatrix (transparentSkeletalModels queue ! fst index1));
          matrix2 = (if snd index1
                     then static_transformMatrix (transparentStaticModels queue ! fst index2)
                     else skeletal_transformMatrix (transparentSkeletalModels queue ! fst index2))
      in nearPlaneDistance matrix1 < nearPlaneDistance matrix2)"

text \<open>The comparator indexes the two vectors unchecked (\<open>operator[]\<close>); an index past the
  end is undefined behaviour.  These are the reads one call makes.\<close>

definition comparator_reads_in_range ::
  "'mat NzForwardRenderQueue \<Rightarrow> nat \<times> bool \<Rightarrow> nat \<times> bool \<Rightarrow> bool" where
  "comparator_reads_in_range queue index1 index2 =
     (if snd index1
      then fst index1 < length (transparentStaticModels queue)
           \<and> fst index2 < length (transparentStaticModels queue)
      else fst index1 < length (transparentSkeletalModels queue)
           \<and> fst index2 < length (transparentSkeletalModels queue))"

text \<open>
  \<open>std::sort\<close> belongs to the C++ standard library, and is modelled by its contract:
  it requires the comparator to be a strict weak ordering of the elements, and leaves a
  permutation of them in which no element is ordered before an earlier one.  The order of
  elements that the comparator holds equivalent is unspecified (the sort is not stable),
  so \<open>std_sort cmp xs ys\<close> is a relation: \<open>ys\<close> is a result the call may leave for
  \<open>xs\<close>.
\<close>

definition strict_weak_ordering :: "('a \<Rightarrow> 'a \<Rightarrow> bool) \<Rightarrow> 'a list \<Rightarrow> bool" where
  "strict_weak_ordering cmp xs \<longleftrightarrow>
     (\<forall>a\<in>set xs. \<not> cmp a a) \<and>
     (\<forall>a\<in>set xs. \<forall>b\<in>set xs. \<forall>c\<in>set xs. cmp a b \<longrightarrow> cmp b c \<longrightarrow> cmp a c) \<and>
     (\<forall>a\<in>set xs. \<forall>b\<in>set xs. \<forall>c\<in>set xs.
        \<not> cmp a b \<and> \<not> cmp b a \<and> \<not> cmp b c \<and> \<not> cmp c b \<longrightarrow> \<not> cmp a c \<and> \<not> cmp c a)"

definition std_sort :: "('a \<Rightarrow> 'a \<Rightarrow> bool) \<Rightarrow> 'a list \<Rightarrow> 'a list \<Rightarrow> bool" where
  "std_sort cmp xs ys \<longleftrightarrow>
     strict_weak_ordering cmp xs \<and> mset ys = mset xs \<and> sorted_wrt (\<lambda>a b. \<not> cmp b a) ys"

text \<open>\<open>Sort camera q q'\<close>: the call \<open>Sort(camera)\<close> on the queue \<open>q\<close> may leave the queue
  \<open>q'\<close>.  A list of fewer than two entries is sorted without a comparison; otherwise any
  two entries may be compared, and every read of the comparator must be in range.\<close>

definition Sort :: "'mat NzCamera \<Rightarrow> 'mat NzForwardRenderQueue \<Rightarrow> 'mat NzForwardRenderQueue \<Rightarrow> bool" where
  "Sort camera q q' \<longleftrightarrow>
     (let comparator = TransparentModelComparator q (NearPlaneDistance camera) in
        (length (visibleTransparentsModels q) < 2 \<or>
         (\<forall>index1\<in>set (visibleTransparentsModels q). \<forall>index2\<in>set (visibleTransparentsModels q).
            comparator_reads_in_range q index1 index2))
        \<and> std_sort comparator (visibleTransparentsModels q) (visibleTransparentsModels q')
        \<and> q' = q\<lparr>visibleTransparentsModels := visibleTransparentsModels q'\<rparr>)"

text \<open>The distance the specification sorts by: that of the record an entry of the index
  list names, read from the store its tag names.\<close>

definition record_distance :: "'mat NzCamera \<Rightarrow> 'mat NzForwardRenderQueue \<Rightarrow> nat \<times> bool \<Rightarrow> real" where
  "record_distance camera q index =
     NearPlaneDistance camera
       (if snd index then static_transformMatrix (transparentStaticModels q ! fst index)
        else skeletal_transformMatrix (transparentSkeletalModels q ! fst index))"

text \<open>The queues \<open>AddModel\<close> builds hold static records only: every entry of the index
  list is tagged static and names a record of the static store.\<close>

definition static_entries_only :: "'mat NzForwardRenderQueue \<Rightarrow> bool" where
  "static_entries_only q \<longleftrightarrow>
     (\<forall>index\<in>set (visibleTransparentsModels q).
        snd index \<and> fst index < length (transparentStaticModels q))"


subsection \<open>Reading the grouping structure\<close>

text \<open>The sub-meshes of a model's mesh, and the material the model resolves for one of
  them, as \<open>AddModel\<close> reads them.\<close>

definition model_subMeshes :: "'mat heap \<Rightarrow> addr \<Rightarrow> addr list" where
  "model_subMeshes h model = subMeshes (mesh_at h (GetMesh (model_at h model)))"

definition resolved_material :: "'mat heap \<Rightarrow> addr \<Rightarrow> addr \<Rightarrow> addr" where
  "resolved_material h model subMesh =
     GetMaterial (model_at h model) (GetMaterialIndex (subMesh_at h subMesh))"

text \<open>The static sub-meshes a model submits, in the order of its mesh: none when the
  model is null or not drawable.  The opaque submissions are those whose resolved material
  has alpha blending disabled, the transparent ones those whose resolved material has it
  enabled.\<close>

definition submitted_subMeshes :: "'mat heap \<Rightarrow> addr \<Rightarrow> addr list" where
  "submitted_subMeshes h model =
     (if model = nullptr \<or> \<not> IsDrawable (model_at h model) then []
      else filter (\<lambda>sm. GetAnimationType (subMesh_at h sm) = nzAnimationType_Static)
             (model_subMeshes h model))"

definition opaque_submissions :: "'mat heap \<Rightarrow> addr \<Rightarrow> addr list" where
  "opaque_submissions h model =
     filter (\<lambda>sm. \<not> IsAlphaBlendingEnabled (material_at h (resolved_material h model sm)))
       (submitted_subMeshes h model)"

definition transparent_submissions :: "'mat heap \<Rightarrow> addr \<Rightarrow> addr list" where
  "transparent_submissions h model =
     filter (\<lambda>sm. IsAlphaBlendingEnabled (material_at h (resolved_material h model sm)))
       (submitted_subMeshes h model)"

text \<open>How many times a model submits the static sub-mesh \<open>staticMesh\<close> with the
  opaque material \<open>material\<close>.\<close>

definition occurrences :: "'mat heap \<Rightarrow> addr \<Rightarrow> addr \<Rightarrow> addr \<Rightarrow> nat" where
  "occurrences h model material staticMesh =
     length (filter (\<lambda>sm. sm = staticMesh \<and> resolved_material h model sm = material)
       (opaque_submissions h model))"

text \<open>The statement
  \<open>visibleModels[material].second[staticMesh].push_back(transformMatrix)\<close> of \<open>AddModel\<close>,
  as a function of the map.\<close>

definition group_opaque :: "'mat heap \<Rightarrow> addr \<Rightarrow> addr \<Rightarrow> 'mat \<Rightarrow> 'mat MeshContainer \<Rightarrow> 'mat MeshContainer" where
  "group_opaque h material staticMesh transformMatrix vm =
     std_map_at (MaterialComparator h) material ([], [])
       (\<lambda>entry. (fst entry,
          std_map_at (StaticMeshComparator h) staticMesh []
            (\<lambda>matrices. matrices @ [transformMatrix]) (snd entry)))
       vm"

text \<open>The invariant of the two levels of \<open>std::map\<close>: entries in ascending order of
  their comparator.\<close>

definition visibleModels_ordered :: "'mat heap \<Rightarrow> 'mat NzForwardRenderQueue \<Rightarrow> bool" where
  "visibleModels_ordered h q \<longleftrightarrow>
     sorted_wrt (MaterialComparator h) (map fst (visibleModels q)) \<and>
     (\<forall>entry\<in>set (visibleModels q). sorted_wrt (StaticMeshComparator h) (map fst (snd (snd entry))))"

text \<open>The matrices found (\<open>find\<close>) under \<open>visibleModels[material].second[staticMesh]\<close>,
  none when there is no such bucket; and the number of buckets stored under that pair of
  keys.\<close>

definition opaque_bucket :: "'mat heap \<Rightarrow> 'mat NzForwardRenderQueue \<Rightarrow> addr \<Rightarrow> addr \<Rightarrow> 'mat list" where
  "opaque_bucket h q material staticMesh =
     (case std_map_find (MaterialComparator h) material (visibleModels q) of
        None \<Rightarrow> []
      | Some entry \<Rightarrow>
          (case std_map_find (StaticMeshComparator h) staticMesh (snd entry) of
             None \<Rightarrow> []
           | Some matrices \<Rightarrow> matrices))"

definition bucket_count :: "'mat NzForwardRenderQueue \<Rightarrow> addr \<Rightarrow> addr \<Rightarrow> nat" where
  "bucket_count q material staticMesh =
     sum_list (map (\<lambda>entry. length (filter (\<lambda>e. fst e = staticMesh) (snd (snd entry))))
       (filter (\<lambda>entry. fst entry = material) (visibleModels q)))"

subsection \<open>The queues the interface builds\<close>

text \<open>A queue is built from a new one (every container empty) by calls of
  \<open>AddDrawable\<close>, \<open>AddLight\<close>, \<open>AddModel\<close>, \<open>Clear\<close> and \<open>Sort\<close>, over the
  objects of one scene.\<close>

inductive reachable :: "'mat heap \<Rightarrow> 'mat NzForwardRenderQueue \<Rightarrow> bool" for h :: "'mat heap" where
  reachable_new:
    "reachable h \<lparr>directionnalLights = [], otherDrawables = [], visibleLights = [],
       visibleModels = [], visibleTransparentsModels = [],
       transparentSkeletalModels = [], transparentStaticModels = []\<rparr>"
| reachable_AddDrawable: "reachable h q \<Longrightarrow> reachable h (snd (AddDrawable drawable q))"
| reachable_AddLight: "reachable h q \<Longrightarrow> reachable h (snd (AddLight debug h light q))"
| reachable_AddModel: "reachable h q \<Longrightarrow> reachable h (snd (AddModel h model q))"
| reachable_Clear: "reachable h q \<Longrightarrow> reachable h (Clear q)"
| reachable_Sort: "reachable h q \<Longrightarrow> Sort camera q q' \<Longrightarrow> reachable h q'"

section \<open>The bounding volume the specification describes\<close>

text \<open>The derived world transform of the node as a reader finds it: the cached one when
  it is up to date, the one \<open>UpdateDerived\<close> would cache otherwise.\<close>

definition derived_position :: "NzLight \<Rightarrow> NzVector3f" where
  "derived_position l = (if m_derivedUpdated l then m_derivedPosition l else world_position l)"

definition derived_rotation :: "NzLight \<Rightarrow> NzQuaternionf" where
  "derived_rotation l = (if m_derivedUpdated l then m_derivedRotation l else world_rotation l)"

text \<open>The smallest box that holds a point and a list of further points.\<close>

definition box_around :: "NzVector3f \<Rightarrow> NzVector3f list \<Rightarrow> NzBoxf" where
  "box_around p ps = \<lparr>box_minimum = foldr vec_min ps p, box_maximum = foldr vec_max ps p\<rparr>"

text \<open>
  Written from the words of the specification: the box of a spot light starts degenerate
  at the apex, the far-plane centre lies at distance radius along the forward axis, the
  half-width of the far plane is radius * tan(outer angle in radians), and the box is
  extended to the four corners of the far plane; the volume of a directional light is
  infinite and not placed, that of a point light is the symmetric box of half-extent
  radius around the origin translated to the derived position, that of a spot light is its
  box transformed by the derived position and rotation.  The half-extent is written
  \<open>\<bar>radius\<bar>\<close>, which is the radius whenever the radius is not negative.
\<close>

definition spot_box_spec :: "vector_math \<Rightarrow> real \<Rightarrow> real \<Rightarrow> NzBoxf" where
  "spot_box_spec vm radius outerAngle =
     (let center = vec_scale (Forward vm) radius;
          halfWidth = radius * Tan vm (outerAngle * pi / 180);
          l = vec_scale (Left vm) halfWidth;
          u = vec_scale (Up vm) halfWidth
      in box_around NzVector3f_Zero
           [vec_add (vec_add center l) u, vec_sub (vec_add center l) u,
            vec_add (vec_sub center l) u, vec_sub (vec_sub center l) u])"

definition volume_spec :: "vector_math \<Rightarrow> NzLight \<Rightarrow> NzBoundingVolumef" where
  "volume_spec vm l =
     (if m_type l = nzLightType_Directional then Volume_Infinite
      else if m_type l = nzLightType_Point then
        Volume_Finite
          \<lparr>box_minimum = (- \<bar>m_radius l\<bar>, - \<bar>m_radius l\<bar>, - \<bar>m_radius l\<bar>),
           box_maximum = (\<bar>m_radius l\<bar>, \<bar>m_radius l\<bar>, \<bar>m_radius l\<bar>)\<rparr>
          (Some (NzMatrix4f_Translate (derived_position l)))
      else if m_type l = nzLightType_Spot then
        Volume_Finite (spot_box_spec vm (m_radius l) (m_outerAngle l))
          (Some (NzMatrix4f_Transform (derived_position l) (derived_rotation l)))
      else Volume_Null)"

text \<open>
  The local shape of a volume, without its placement; and the condition under which the
  cached volume of a light needs no new shape: it is null (as after \<open>SetRadius\<close> and
  \<open>SetOuterAngle\<close>), or its shape is the one of the light's present type, radius and outer
  angle.  Every operation of the light but \<open>SetLightType\<close> keeps that condition
  (\<open>cached_shape_current_invariant\<close> below).
\<close>

fun shape_of :: "NzBoundingVolumef \<Rightarrow> NzBoundingVolumef" where
  "shape_of (Volume_Finite box placed) = Volume_Finite box None"
| "shape_of Volume_Null = Volume_Null"
| "shape_of Volume_Infinite = Volume_Infinite"

definition cached_shape_current :: "vector_math \<Rightarrow> NzLight \<Rightarrow> bool" where
  "cached_shape_current vm l \<longleftrightarrow>
     IsNull (m_boundingVolume l) \<or>
     shape_of (m_boundingVolume l) = shape_of (volume_spec vm l)"

section \<open>Concrete scenes\<close>

text \<open>A camera looking along the z axis with its near plane at \<open>z = 0\<close>; a transform
  matrix is given by its translation, the only part the queue looks at.\<close>

definition camera_along_z :: "NzVector3f NzCamera" where
  "camera_along_z = \<lparr>NearPlaneDistance = (\<lambda>m. snd (snd m))\<rparr>"

definition empty_queue :: "NzVector3f NzForwardRenderQueue" where
  "empty_queue = \<lparr>directionnalLights = [], otherDrawables = [], visibleLights = [],
     visibleModels = [], visibleTransparentsModels = [],
     transparentSkeletalModels = [], transparentStaticModels = []\<rparr>"

text \<open>Two static records, submitted far (distance 9) before near (distance 4).\<close>

definition far_near_queue :: "NzVector3f NzForwardRenderQueue" where
  "far_near_queue = empty_queue
     \<lparr>visibleTransparentsModels := [(0, True), (1, True)],
      transparentStaticModels :=
        [\<lparr>static_material = 1, static_mesh = 4, static_transformMatrix = (0, 0, 9)\<rparr>,
         \<lparr>static_material = 1, static_mesh = 5, static_transformMatrix = (0, 0, 4)\<rparr>]\<rparr>"

text \<open>The axes of a right-handed frame looking down the negative z axis, with a
  rotation that leaves vectors as they are (all the example lights are unrotated) and the
  tangent of the reals (the example angles, 0 and 45 degrees, are far from its poles).\<close>

definition nazara_math :: vector_math where
  "nazara_math = \<lparr>Forward = (0, 0, -1), Left = (-1, 0, 0), Up = (0, 1, 0), Rotate = (\<lambda>q v. v),
                   Tan = tan\<rparr>"

text \<open>A light with the members the constructor \<open>NzLight(type)\<close> sets, a null bounding
  volume, and a node at world position (1, 2, 3) whose derived transform is stale.\<close>

definition example_light :: "int \<Rightarrow> NzLight" where
  "example_light type =
     \<lparr>world_position = (1, 2, 3), world_rotation = (1, 0, 0, 0),
      m_derivedUpdated = False, m_derivedPosition = (0, 0, 0), m_derivedRotation = (1, 0, 0, 0),
      m_type = type, m_boundingVolume = Volume_Null, m_color = (255, 255, 255, 255),
      m_boundingVolumeUpdated = False,
      m_ambientFactor = (if type = nzLightType_Directional then 0.2 else 0),
      m_attenuation = 0.9, m_diffuseFactor = 1, m_innerAngle = 15, m_outerAngle = 45,
      m_radius = 5\<rparr>"

text \<open>A frustum that holds the spheres reaching the cube of half-extent 10 around the
  origin, and every volume but the null one.\<close>

definition box_frustum :: NzFrustumf where
  "box_frustum =
     \<lparr>Contains_sphere = (\<lambda>s. \<bar>fst (sphere_center s)\<bar> \<le> 10 + sphere_radius s
          \<and> \<bar>fst (snd (sphere_center s))\<bar> \<le> 10 + sphere_radius s
          \<and> \<bar>snd (snd (sphere_center s))\<bar> \<le> 10 + sphere_radius s),
      Contains_volume = (\<lambda>v. v \<noteq> Volume_Null)\<rparr>"

text \<open>The point light after its bounding volume has been read once.\<close>

definition cached_point_light :: NzLight where
  "cached_point_light = snd (GetBoundingVolume nazara_math (example_light nzLightType_Point))"

text \<open>The spot light after its bounding volume has been read once.\<close>

definition cached_spot_light :: NzLight where
  "cached_spot_light = snd (GetBoundingVolume nazara_math (example_light nzLightType_Spot))"

text \<open>The point light whose volume has been read, then made Directional by
  \<open>SetLightType\<close> and invalidated by a move of its node (\<open>Invalidate\<close>).\<close>

definition retyped_light :: NzLight where
  "retyped_light = Invalidate (SetLightType nzLightType_Directional cached_point_light)"

text \<open>A program whose light slots are six locations wide, the first at location 0.\<close>

definition example_program :: NzShaderProgram where
  "example_program = \<lparr>GetUniformLocation = (\<lambda>name.
     if name = ''Lights[0].type'' then 0
     else if name = ''Lights[0].color'' then 1
     else if name = ''Lights[0].factors'' then 2
     else if name = ''Lights[0].parameters1'' then 3
     else if name = ''Lights[0].parameters2'' then 4
     else if name = ''Lights[0].parameters3'' then 5
     else if name = ''Lights[1].type'' then 6
     else - 1)\<rparr>"

text \<open>
  A heap with three lights (1 directional, 2 point, 3 spot; any other address holds a
  light whose type is 7, outside the enum) and three materials (1 with the custom shader 7;
  2 and 3 without, with flags 3 and 5; only 2 is alpha-blended).  The sub-meshes are static
  but for the skeletal 12; 10 and 11 have their index buffers stored at 200 and 100 and
  their vertex buffers at 300 and 400, and 11 asks for the material of index 1, the others
  for that of index 0.  Mesh 2 is made of the sub-meshes 10, 11 and 12, mesh 3 of the
  seventeen sub-meshes 100 to 116, any other mesh of sub-mesh 10 alone.  A model stands at
  \<open>(0, 0, a)\<close>, \<open>a\<close> being its address: 1 and 2 have the one-sub-mesh mesh and the
  opaque material 1; 3 has that mesh and the alpha-blended material 2; 4 is not drawable;
  5 and 6 have mesh 2, with the opaque material 1 at index 0 and the alpha-blended
  material 2 at index 1; 7 has mesh 3 and the alpha-blended material 2.
\<close>

definition scene_heap :: "NzVector3f heap" where
  "scene_heap =
     \<lparr>light_at = (\<lambda>a. example_light
        (if a = 1 then nzLightType_Directional else if a = 2 then nzLightType_Point
         else if a = 3 then nzLightType_Spot else 7)),
      model_at = (\<lambda>a.
        \<lparr>IsDrawable = (a \<noteq> 4),
         GetTransformMatrix = (0, 0, real a),
         GetMesh = (if a = 5 \<or> a = 6 then 2 else if a = 7 then 3 else 1),
         GetMaterial = (\<lambda>i. if a = 3 \<or> a = 7 then 2
                            else if (a = 5 \<or> a = 6) \<and> i = 1 then 2 else 1)\<rparr>),
      mesh_at = (\<lambda>a. \<lparr>subMeshes = (if a = 2 then [10, 11, 12]
                                      else if a = 3 then [100..<117] else [10])\<rparr>),
      subMesh_at = (\<lambda>a.
        \<lparr>GetAnimationType = (if a = 12 then nzAnimationType_Skeletal else nzAnimationType_Static),
         GetMaterialIndex = (if a = 11 then 1 else 0),
         GetIndexBuffer = (if a = 10 then 20 else 21),
         GetVertexBuffer = (if a = 10 then 30 else 31)\<rparr>),
      indexBuffer_at = (\<lambda>a. \<lparr>ib_GetBuffer = (if a = 20 then 200 else 100)\<rparr>),
      vertexBuffer_at = (\<lambda>a. \<lparr>vb_GetBuffer = (if a = 30 then 300 else 400)\<rparr>),
      material_at = (\<lambda>a.
        \<lparr>GetCustomShader = (if a = 1 then 7 else nullptr),
         GetShaderFlags = (if a = 2 then 3 else 5),
         IsAlphaBlendingEnabled = (a = 2)\<rparr>)\<rparr>"

text \<open>The queue after the submission of model 5, whose alpha-blended sub-mesh is at
  distance 5, and then of model 3, at distance 3.\<close>

definition submitted_far_near :: "NzVector3f NzForwardRenderQueue" where
  "submitted_far_near = snd (AddModel scene_heap 3 (snd (AddModel scene_heap 5 empty_queue)))"

text \<open>The queue after the submission of model 7: seventeen records that share the
  transform matrix of the model, so that all are at distance 7.\<close>

definition tied_queue :: "NzVector3f NzForwardRenderQueue" where
  "tied_queue = snd (AddModel scene_heap 7 empty_queue)"

text \<open>The orders in which \<open>std::sort\<close> of libstdc++ leaves seventeen equivalent
  entries after one call and after a second one.  Past sixteen elements its introsort
  exchanges the first element with the middle one (the median of three equivalent
  elements), then partitions the rest around it by exchanging the elements it meets from
  both ends, none being ordered before or after the pivot; the two parts are short enough to
  be left to the final insertion sort, which moves no element.\<close>

definition tied_once :: "NzVector3f NzForwardRenderQueue" where
  "tied_once = tied_queue\<lparr>visibleTransparentsModels :=
     map (\<lambda>i. (i, True)) [8, 16, 15, 14, 13, 12, 11, 10, 9, 0, 7, 6, 5, 4, 3, 2, 1]\<rparr>"

definition tied_twice :: "NzVector3f NzForwardRenderQueue" where
  "tied_twice = tied_queue\<lparr>visibleTransparentsModels :=
     map (\<lambda>i. (i, True)) [9, 1, 2, 3, 4, 5, 6, 7, 0, 8, 10, 11, 12, 13, 14, 15, 16]\<rparr>"

section \<open>Properties of the comparators\<close>

lemma SkeletalMeshComparator_eq: "SkeletalMeshComparator h a b = (a < b)"
  by (simp add: SkeletalMeshComparator_def Let_def)

lemma StaticMeshComparator_eq:
  "StaticMeshComparator h a b =
     (if vertex_storage h a = vertex_storage h b then a < b
      else vertex_storage h a < vertex_storage h b)"
  by (simp add: StaticMeshComparator_def vertex_storage_def Let_def)

lemma strict_total_order_StaticMeshComparator: "strict_total_order (StaticMeshComparator h)"
  unfolding strict_total_order_def StaticMeshComparator_eq
  by (auto split: if_splits)

lemma strict_total_order_SkeletalMeshComparator: "strict_total_order (SkeletalMeshComparator h)"
  unfolding strict_total_order_def SkeletalMeshComparator_eq
  by auto

lemma MaterialComparator_total: "strict_total_order (MaterialComparator h)"
  unfolding strict_total_order_def MaterialComparator_def Let_def
  by (auto split: if_splits)

text \<open>
  C2.  The claim: StaticMeshComparator orders by index-buffer storage first, vertex-buffer
  storage second and mesh identity last, and SkeletalMeshComparator by index-buffer storage
  first and mesh identity last.  Both comparators read the second index buffer from
  \<open>subMesh1\<close> again, so the two index-buffer storages they compare are always equal
  (\<open>StaticMeshComparator_eq\<close>, \<open>SkeletalMeshComparator_eq\<close>).  In the scene, sub-mesh 11
  has the smaller index-buffer storage (100 against 200), yet both comparators order
  sub-mesh 10 before it, against the order the claim describes.
\<close>

theorem mesh_comparators_ignore_index_buffer:
  "StaticMeshComparator scene_heap 10 11
   \<and> \<not> static_mesh_order_spec scene_heap 10 11
   \<and> SkeletalMeshComparator scene_heap 10 11
   \<and> \<not> skeletal_mesh_order_spec scene_heap 10 11"
  by (simp add: StaticMeshComparator_def SkeletalMeshComparator_def static_mesh_order_spec_def
      skeletal_mesh_order_spec_def index_storage_def vertex_storage_def scene_heap_def
      nullptr_def Let_def)

text \<open>
  C5.  MaterialComparator is the order the specification describes: a material with a
  custom shader comes before one without; two materials with different custom shaders are
  ordered by shader identity; two materials without one and with different shader flags
  are ordered by the flags; in every other case the order is that of the material
  pointers.  It is a strict total order on material pointers.
\<close>

theorem MaterialComparator_order:
  "MaterialComparator h mat1 mat2 = material_order_spec h mat1 mat2
   \<and> strict_total_order (MaterialComparator h)"
proof
  show "MaterialComparator h mat1 mat2 = material_order_spec h mat1 mat2"
    by (simp add: MaterialComparator_def material_order_spec_def has_custom_shader_def Let_def)
  show "strict_total_order (MaterialComparator h)"
    by (rule MaterialComparator_total)
qed

theorem MaterialComparator_order_witness:
  "MaterialComparator scene_heap 1 2 \<and> MaterialComparator scene_heap 2 3
   \<and> MaterialComparator scene_heap 1 3 \<and> \<not> MaterialComparator scene_heap 3 1"
proof -
  have ab: "MaterialComparator scene_heap 1 2"
    by (simp add: MaterialComparator_def scene_heap_def nullptr_def)
  have bc: "MaterialComparator scene_heap 2 3"
    by (simp add: MaterialComparator_def scene_heap_def nullptr_def Let_def)
  have total: "strict_total_order (MaterialComparator scene_heap)"
    using MaterialComparator_order [of scene_heap 1 2] by simp
  from total ab bc have ac: "MaterialComparator scene_heap 1 3"
    unfolding strict_total_order_def by blast
  from total ac have "\<not> MaterialComparator scene_heap 3 1"
    unfolding strict_total_order_def by blast
  with ab bc ac show ?thesis by simp
qed

section \<open>The loop of AddModel\<close>

lemma AddModel_loop:
  "model \<noteq> nullptr \<Longrightarrow> IsDrawable (model_at h model) \<Longrightarrow>
   AddModel h model q = foldl (AddModel_subMesh h (model_at h model)) ([], q) (model_subMeshes h model)"
  by (simp add: AddModel_def GetSubMeshCount_def GetSubMesh_def model_subMeshes_def Let_def map_nth
      cong: map_cong)

lemma AddModel_rejected:
  "model = nullptr \<or> \<not> IsDrawable (model_at h model) \<Longrightarrow> snd (AddModel h model q) = q"
  by (auto simp: AddModel_def NAZARA_GRAPHICS_SAFE_def)

section \<open>Properties of Sort\<close>

lemma TransparentModelComparator_static:
  "snd i1 \<Longrightarrow> snd i2 \<Longrightarrow>
   TransparentModelComparator q (NearPlaneDistance c) i1 i2
     = (record_distance c q i1 < record_distance c q i2)"
  by (simp add: TransparentModelComparator_def record_distance_def Let_def)

lemma strict_weak_ordering_key: "strict_weak_ordering (\<lambda>a b. (f a :: real) < f b) xs"
  by (auto simp: strict_weak_ordering_def)

lemma strict_weak_ordering_cong:
  "(\<And>a b. a \<in> set xs \<Longrightarrow> b \<in> set xs \<Longrightarrow> cmp a b = cmp' a b) \<Longrightarrow>
   strict_weak_ordering cmp xs = strict_weak_ordering cmp' xs"
  unfolding strict_weak_ordering_def by (intro arg_cong2[where f="(\<and>)"] ball_cong refl) auto

lemma sorted_wrt_cong_set:
  "(\<And>a b. a \<in> set ys \<Longrightarrow> b \<in> set ys \<Longrightarrow> P a b = Q a b) \<Longrightarrow> sorted_wrt P ys = sorted_wrt Q ys"
  by (induction ys) auto

lemma std_sort_cong:
  assumes "\<And>a b. a \<in> set xs \<Longrightarrow> b \<in> set xs \<Longrightarrow> cmp a b = cmp' a b"
  shows "std_sort cmp xs ys = std_sort cmp' xs ys"
proof (cases "mset ys = mset xs")
  case True
  then have "set ys = set xs" by (rule mset_eq_setD)
  with assms have "sorted_wrt (\<lambda>a b. \<not> cmp b a) ys = sorted_wrt (\<lambda>a b. \<not> cmp' b a) ys"
    by (intro sorted_wrt_cong_set) auto
  with strict_weak_ordering_cong [of xs cmp cmp'] assms show ?thesis
    by (simp add: std_sort_def)
next
  case False
  then show ?thesis by (simp add: std_sort_def)
qed

lemma std_sort_key:
  "std_sort (\<lambda>a b. (f a :: real) < f b) xs ys \<longleftrightarrow> mset ys = mset xs \<and> sorted (map f ys)"
  by (simp add: std_sort_def strict_weak_ordering_key sorted_map not_less)

text \<open>On a queue of static records, the results of \<open>Sort\<close> are the queues that differ
  from it in the index list only, hold a permutation of that list, and have it in
  ascending order of the records' distances.\<close>

lemma Sort_static:
  assumes "static_entries_only q"
  shows "Sort c q q' \<longleftrightarrow>
     mset (visibleTransparentsModels q') = mset (visibleTransparentsModels q)
     \<and> sorted (map (record_distance c q) (visibleTransparentsModels q'))
     \<and> q' = q\<lparr>visibleTransparentsModels := visibleTransparentsModels q'\<rparr>"
proof -
  let ?xs = "visibleTransparentsModels q"
  have tag: "\<And>a. a \<in> set ?xs \<Longrightarrow> snd a \<and> fst a < length (transparentStaticModels q)"
    using assms by (auto simp: static_entries_only_def)
  have rng: "\<forall>a\<in>set ?xs. \<forall>b\<in>set ?xs. comparator_reads_in_range q a b"
    using tag by (auto simp: comparator_reads_in_range_def)
  have "std_sort (TransparentModelComparator q (NearPlaneDistance c)) ?xs ys
      = std_sort (\<lambda>a b. record_distance c q a < record_distance c q b) ?xs ys" for ys
    by (rule std_sort_cong) (simp add: TransparentModelComparator_static tag)
  then show ?thesis using rng by (auto simp: Sort_def std_sort_key)
qed

lemma record_distance_index_list [simp]:
  "record_distance c (q\<lparr>visibleTransparentsModels := ys\<rparr>) = record_distance c q"
  by (simp add: record_distance_def fun_eq_iff)

lemma static_entries_only_perm:
  "static_entries_only q \<Longrightarrow> mset ys = mset (visibleTransparentsModels q) \<Longrightarrow>
   static_entries_only (q\<lparr>visibleTransparentsModels := ys\<rparr>)"
  by (auto simp: static_entries_only_def dest: mset_eq_setD)

lemma sorted_perm_same_keys:
  fixes f :: "'a \<Rightarrow> real"
  assumes "mset zs = mset ys" "sorted (map f ys)" "sorted (map f zs)"
  shows "map f zs = map f ys"
proof -
  have "mset (map f zs) = mset (map f ys)" using assms(1) by simp
  then show ?thesis using assms(2,3) by (metis properties_for_sort)
qed

lemma map_eq_perm_distinct:
  assumes "map f zs = map f ys" "mset zs = mset ys" "distinct (map f ys)"
  shows "zs = ys"
proof -
  have "inj_on f (set ys)" using assms(3) by (simp add: distinct_map)
  moreover have "set zs = set ys" using assms(2) by (rule mset_eq_setD)
  ultimately have "inj_on f (set zs \<union> set ys)" by simp
  with assms(1) show ?thesis by (simp add: inj_on_map_eq_map)
qed

text \<open>
  X1.  On a queue whose index list holds static entries only, Sort returns, and every
  result has the index list in ascending order of the records' distances, holds the two
  backing stores as they were, and still holds static entries only, each naming a record
  of the static store.
\<close>

theorem Sort_static_ascending:
  assumes "static_entries_only q"
  shows "(\<exists>q'. Sort camera q q') \<and>
    (\<forall>q'. Sort camera q q' \<longrightarrow>
       sorted (map (record_distance camera q') (visibleTransparentsModels q'))
       \<and> transparentStaticModels q' = transparentStaticModels q
       \<and> transparentSkeletalModels q' = transparentSkeletalModels q
       \<and> static_entries_only q')"
proof (intro conjI allI impI)
  have "Sort camera q (q\<lparr>visibleTransparentsModels :=
      sort_key (record_distance camera q) (visibleTransparentsModels q)\<rparr>)"
    by (simp add: Sort_static [OF assms])
  then show "\<exists>q'. Sort camera q q'" ..
next
  fix q' assume "Sort camera q q'"
  then have p: "mset (visibleTransparentsModels q') = mset (visibleTransparentsModels q)"
    and s: "sorted (map (record_distance camera q) (visibleTransparentsModels q'))"
    and e: "q' = q\<lparr>visibleTransparentsModels := visibleTransparentsModels q'\<rparr>"
    by (simp_all add: Sort_static [OF assms])
  have d: "record_distance camera q' = record_distance camera q"
    by (subst e) simp
  from s d show "sorted (map (record_distance camera q') (visibleTransparentsModels q'))"
    by simp
  show "transparentStaticModels q' = transparentStaticModels q"
    by (subst e) simp
  show "transparentSkeletalModels q' = transparentSkeletalModels q"
    by (subst e) simp
  show "static_entries_only q'"
    using static_entries_only_perm [OF assms p] e by simp
qed

theorem Sort_static_ascending_witness:
  "static_entries_only far_near_queue
   \<and> Sort camera_along_z far_near_queue
        (far_near_queue\<lparr>visibleTransparentsModels := [(1, True), (0, True)]\<rparr>)
   \<and> map (record_distance camera_along_z
             (far_near_queue\<lparr>visibleTransparentsModels := [(1, True), (0, True)]\<rparr>))
        [(1, True), (0, True)] = [4, 9]
   \<and> \<not> Sort camera_along_z far_near_queue far_near_queue"
proof -
  let ?q' = "far_near_queue\<lparr>visibleTransparentsModels := [(1, True), (0, True)]\<rparr>"
  have st: "static_entries_only far_near_queue"
    by (simp add: static_entries_only_def far_near_queue_def empty_queue_def)
  have s1: "Sort camera_along_z far_near_queue ?q'"
    by (simp add: Sort_def std_sort_def strict_weak_ordering_def TransparentModelComparator_def
      comparator_reads_in_range_def far_near_queue_def empty_queue_def camera_along_z_def)
  have d: "map (record_distance camera_along_z ?q') [(1, True), (0, True)] = [4, 9]"
    by (simp add: record_distance_def far_near_queue_def empty_queue_def camera_along_z_def)
  have "\<not> sorted (map (record_distance camera_along_z far_near_queue)
      (visibleTransparentsModels far_near_queue))"
    by (simp add: record_distance_def far_near_queue_def empty_queue_def camera_along_z_def)
  then have "\<not> Sort camera_along_z far_near_queue far_near_queue"
    using Sort_static_ascending [OF st, of camera_along_z] by blast
  with st s1 d show ?thesis by simp
qed

lemma AddModel_subMesh_static_entries:
  "static_entries_only (snd st) \<Longrightarrow> transparentSkeletalModels (snd st) = [] \<Longrightarrow>
   static_entries_only (snd (AddModel_subMesh h m st sm))
   \<and> transparentSkeletalModels (snd (AddModel_subMesh h m st sm)) = []"
  by (auto simp: AddModel_subMesh_def static_entries_only_def Let_def
      split: nzAnimationType.splits)

lemma foldl_AddModel_subMesh_static_entries:
  "static_entries_only (snd st) \<Longrightarrow> transparentSkeletalModels (snd st) = [] \<Longrightarrow>
   static_entries_only (snd (foldl (AddModel_subMesh h m) st subs))
   \<and> transparentSkeletalModels (snd (foldl (AddModel_subMesh h m) st subs)) = []"
proof (induction subs arbitrary: st)
  case Nil
  then show ?case by simp
next
  case (Cons sm subs)
  from AddModel_subMesh_static_entries [OF Cons.prems]
  have "static_entries_only (snd (AddModel_subMesh h m st sm))"
    and "transparentSkeletalModels (snd (AddModel_subMesh h m st sm)) = []" by simp_all
  then show ?case using Cons.IH by simp
qed

lemma AddModel_static_entries:
  assumes "static_entries_only q" "transparentSkeletalModels q = []"
  shows "static_entries_only (snd (AddModel h model q))
   \<and> transparentSkeletalModels (snd (AddModel h model q)) = []"
proof (cases "model = nullptr \<or> \<not> IsDrawable (model_at h model)")
  case True
  with assms show ?thesis by (simp add: AddModel_rejected)
next
  case False
  then show ?thesis
    using foldl_AddModel_subMesh_static_entries [of "([], q)" h "model_at h model"] assms
    by (simp add: AddModel_loop)
qed

text \<open>Every queue built through the interface holds static entries only, each naming a
  record of the static store, and no skeletal record.\<close>

lemma reachable_static_entries:
  "reachable h q \<Longrightarrow> static_entries_only q \<and> transparentSkeletalModels q = []"
proof (induction rule: reachable.induct)
  case reachable_new
  show ?case by (simp add: static_entries_only_def)
next
  case (reachable_AddDrawable q drawable)
  then show ?case by (simp add: AddDrawable_def static_entries_only_def)
next
  case (reachable_AddLight q debug light)
  then show ?case by (simp add: AddLight_def static_entries_only_def Let_def)
next
  case (reachable_AddModel q model)
  then show ?case by (simp add: AddModel_static_entries)
next
  case (reachable_Clear q)
  show ?case by (simp add: Clear_def static_entries_only_def)
next
  case (reachable_Sort q camera q')
  then have st: "static_entries_only q" and sk: "transparentSkeletalModels q = []" by simp_all
  from reachable_Sort.hyps(2)
  have p: "mset (visibleTransparentsModels q') = mset (visibleTransparentsModels q)"
    and e: "q' = q\<lparr>visibleTransparentsModels := visibleTransparentsModels q'\<rparr>"
    by (simp_all add: Sort_static [OF st])
  have "static_entries_only q'"
    using static_entries_only_perm [OF st p] e by simp
  moreover have "transparentSkeletalModels q' = []"
    by (subst e) (simp add: sk)
  ultimately show ?case by simp
qed

lemma submitted_far_near_stores:
  "visibleTransparentsModels submitted_far_near = [(0, True), (1, True)]"
  "transparentStaticModels submitted_far_near
     = [\<lparr>static_material = 2, static_mesh = 11, static_transformMatrix = (0, 0, 5)\<rparr>,
        \<lparr>static_material = 2, static_mesh = 10, static_transformMatrix = (0, 0, 3)\<rparr>]"
  "transparentSkeletalModels submitted_far_near = []"
  by (simp_all add: submitted_far_near_def AddModel_def AddModel_subMesh_def GetSubMeshCount_def
      GetSubMesh_def scene_heap_def empty_queue_def NAZARA_GRAPHICS_SAFE_def nullptr_def
      Let_def upt_rec)

lemma reachable_empty_queue: "reachable h empty_queue"
  unfolding empty_queue_def by (rule reachable_new)


text \<open>
  C1.  For every camera and every queue built through the interface (a new queue, then any
  calls of AddDrawable, AddLight, AddModel, Clear and Sort): Sort returns; every result has
  the index list in ascending order of the distance to the camera's near plane of each
  entry's record, read from the store the entry's tag names; the list is a permutation of
  what it was and nothing else of the queue differs, the two backing stores included; and
  every entry still names a record of the static store.  AddModel writes the tag
  \<open>true\<close> only, so that no entry of such a queue is tagged skeletal: the comparator's
  choice of the second entry's store by the first entry's tag (\<open>index1.second\<close>) never
  picks the other store.
\<close>

theorem Sort_reachable_ascending:
  assumes "reachable h q"
  shows "(\<exists>q'. Sort camera q q') \<and>
    (\<forall>q'. Sort camera q q' \<longrightarrow>
       sorted (map (record_distance camera q') (visibleTransparentsModels q'))
       \<and> mset (visibleTransparentsModels q') = mset (visibleTransparentsModels q)
       \<and> q' = q\<lparr>visibleTransparentsModels := visibleTransparentsModels q'\<rparr>
       \<and> transparentStaticModels q' = transparentStaticModels q
       \<and> transparentSkeletalModels q' = transparentSkeletalModels q
       \<and> (\<forall>index\<in>set (visibleTransparentsModels q').
            snd index \<and> fst index < length (transparentStaticModels q')))"
proof (intro conjI allI impI)
  from reachable_static_entries [OF assms] have st: "static_entries_only q" by simp
  have "Sort camera q (q\<lparr>visibleTransparentsModels :=
      sort_key (record_distance camera q) (visibleTransparentsModels q)\<rparr>)"
    by (simp add: Sort_static [OF st])
  then show "\<exists>q'. Sort camera q q'" ..
next
  fix q' assume s: "Sort camera q q'"
  from reachable_static_entries [OF assms] have st: "static_entries_only q" by simp
  from s have p: "mset (visibleTransparentsModels q') = mset (visibleTransparentsModels q)"
    and o: "sorted (map (record_distance camera q) (visibleTransparentsModels q'))"
    and e: "q' = q\<lparr>visibleTransparentsModels := visibleTransparentsModels q'\<rparr>"
    by (simp_all add: Sort_static [OF st])
  have d: "record_distance camera q' = record_distance camera q"
    by (subst e) simp
  from o d show "sorted (map (record_distance camera q') (visibleTransparentsModels q'))"
    by simp
  from p show "mset (visibleTransparentsModels q') = mset (visibleTransparentsModels q)" .
  from e show "q' = q\<lparr>visibleTransparentsModels := visibleTransparentsModels q'\<rparr>" .
  show "transparentStaticModels q' = transparentStaticModels q"
    by (subst e) simp
  show "transparentSkeletalModels q' = transparentSkeletalModels q"
    by (subst e) simp
  have "static_entries_only q'"
    using static_entries_only_perm [OF st p] e by simp
  then show "\<forall>index\<in>set (visibleTransparentsModels q').
            snd index \<and> fst index < length (transparentStaticModels q')"
    by (simp add: static_entries_only_def)
qed

theorem Sort_reachable_ascending_witness:
  "reachable scene_heap submitted_far_near
   \<and> visibleTransparentsModels submitted_far_near = [(0, True), (1, True)]
   \<and> map (record_distance camera_along_z submitted_far_near) [(0, True), (1, True)] = [5, 3]
   \<and> Sort camera_along_z submitted_far_near
         (submitted_far_near\<lparr>visibleTransparentsModels := [(1, True), (0, True)]\<rparr>)
   \<and> \<not> Sort camera_along_z submitted_far_near submitted_far_near"
proof -
  let ?q' = "submitted_far_near\<lparr>visibleTransparentsModels := [(1, True), (0, True)]\<rparr>"
  have r: "reachable scene_heap submitted_far_near"
    unfolding submitted_far_near_def
    by (intro reachable_AddModel reachable_empty_queue)
  have d: "map (record_distance camera_along_z submitted_far_near) [(0, True), (1, True)] = [5, 3]"
    by (simp add: record_distance_def submitted_far_near_stores camera_along_z_def)
  have s1: "Sort camera_along_z submitted_far_near ?q'"
    by (simp add: Sort_def std_sort_def strict_weak_ordering_def TransparentModelComparator_def
      comparator_reads_in_range_def submitted_far_near_stores camera_along_z_def)
  have "\<not> sorted (map (record_distance camera_along_z submitted_far_near)
      (visibleTransparentsModels submitted_far_near))"
    using d by (simp add: submitted_far_near_stores)
  then have "\<not> Sort camera_along_z submitted_far_near submitted_far_near"
    using Sort_reachable_ascending [OF r, of camera_along_z] by blast
  with r d s1 submitted_far_near_stores(1) show ?thesis by simp
qed

lemma tied_queue_stores:
  "visibleTransparentsModels tied_queue = map (\<lambda>i. (i, True)) [0..<17]"
  "transparentStaticModels tied_queue
     = map (\<lambda>sm. \<lparr>static_material = 2, static_mesh = sm, static_transformMatrix = (0, 0, 7)\<rparr>)
         [100..<117]"
  by (simp_all add: tied_queue_def AddModel_def AddModel_subMesh_def GetSubMeshCount_def
      GetSubMesh_def scene_heap_def empty_queue_def NAZARA_GRAPHICS_SAFE_def nullptr_def
      Let_def upt_rec)

lemma map_constant: "\<forall>x\<in>set xs. f x = c \<Longrightarrow> map f xs = replicate (length xs) c"
  by (induction xs) auto

lemma sorted_map_constant: "\<forall>x\<in>set xs. f x = (c :: real) \<Longrightarrow> sorted (map f xs)"
  by (induction xs) auto

lemma upt_0_17: "[0..<17] = [0, 1, 2, 3, 4, 5, 6, 7, 8, 9, 10, 11, 12, 13, 14, 15, 16 :: nat]"
  by (simp add: upt_rec)

lemma tied_queue_distance:
  "i < 17 \<Longrightarrow> record_distance camera_along_z tied_queue (i, True) = 7"
  by (simp add: record_distance_def tied_queue_stores camera_along_z_def del: upt_rec_numeral)

text \<open>
  C3, the claim as stated: a second Sort with the same camera changes nothing.  Model 7
  has seventeen alpha-blended sub-meshes, so its submission leaves seventeen entries at the
  same distance.  \<open>std::sort\<close> is not stable: \<open>tied_once\<close> is the order its first call
  leaves with libstdc++ and \<open>tied_twice\<close> the order its second call leaves; both are
  results of Sort, and they differ.
\<close>

theorem Sort_resort_exchanges_ties:
  "visibleTransparentsModels tied_queue = map (\<lambda>i. (i, True)) [0..<17]
   \<and> map (record_distance camera_along_z tied_queue) (visibleTransparentsModels tied_queue)
       = replicate 17 7
   \<and> Sort camera_along_z tied_queue tied_once
   \<and> Sort camera_along_z tied_once tied_twice
   \<and> visibleTransparentsModels tied_twice \<noteq> visibleTransparentsModels tied_once"
proof (intro conjI)
  show "visibleTransparentsModels tied_queue = map (\<lambda>i. (i, True)) [0..<17]"
    by (rule tied_queue_stores)
  have all: "\<forall>x\<in>set (map (\<lambda>i. (i, True)) [0..<17]).
      record_distance camera_along_z tied_queue x = 7"
    by (auto simp: tied_queue_distance)
  show "map (record_distance camera_along_z tied_queue) (visibleTransparentsModels tied_queue)
       = replicate 17 7"
    unfolding tied_queue_stores(1) using map_constant [OF all] by simp
  have st: "static_entries_only tied_queue"
    by (auto simp: static_entries_only_def tied_queue_stores)
  have m1: "mset (visibleTransparentsModels tied_once) = mset (visibleTransparentsModels tied_queue)"
    by (simp add: tied_once_def tied_queue_stores upt_0_17)
  have m2: "mset (visibleTransparentsModels tied_twice) = mset (visibleTransparentsModels tied_queue)"
    by (simp add: tied_twice_def tied_queue_stores upt_0_17)
  have s1: "sorted (map (record_distance camera_along_z tied_queue) (visibleTransparentsModels tied_once))"
    by (rule sorted_map_constant [where c = 7]) (auto simp: tied_once_def tied_queue_distance)
  have s2: "sorted (map (record_distance camera_along_z tied_queue) (visibleTransparentsModels tied_twice))"
    by (rule sorted_map_constant [where c = 7]) (auto simp: tied_twice_def tied_queue_distance)
  have e1: "tied_once = tied_queue\<lparr>visibleTransparentsModels := visibleTransparentsModels tied_once\<rparr>"
    by (simp add: tied_once_def)
  have e2: "tied_twice = tied_once\<lparr>visibleTransparentsModels := visibleTransparentsModels tied_twice\<rparr>"
    by (simp add: tied_twice_def tied_once_def)
  from m1 s1 e1 show "Sort camera_along_z tied_queue tied_once"
    by (simp add: Sort_static [OF st])
  have st1: "static_entries_only tied_once"
    using static_entries_only_perm [OF st m1] e1 by simp
  have d1: "record_distance camera_along_z tied_once = record_distance camera_along_z tied_queue"
    by (subst e1) simp
  from m1 m2 s2 e2 show "Sort camera_along_z tied_once tied_twice"
    by (simp add: Sort_static [OF st1] d1)
  show "visibleTransparentsModels tied_twice \<noteq> visibleTransparentsModels tied_once"
    by (simp add: tied_twice_def tied_once_def)
qed

text \<open>
  C3, amended.  For every camera and every queue whose index list holds static entries
  only (the queues AddModel builds): Sort returns; every result holds a permutation of
  the index list; sorting a result again, with the same camera, leaves a permutation with
  the same sequence of distances; and when the distances of the entries are pairwise
  different, it leaves the result as it is.
\<close>

theorem Sort_static_permutation_resort:
  assumes "static_entries_only q"
  shows "(\<exists>q'. Sort camera q q') \<and>
    (\<forall>q'. Sort camera q q' \<longrightarrow>
       mset (visibleTransparentsModels q') = mset (visibleTransparentsModels q) \<and>
       (\<forall>q''. Sort camera q' q'' \<longrightarrow>
          mset (visibleTransparentsModels q'') = mset (visibleTransparentsModels q) \<and>
          map (record_distance camera q'') (visibleTransparentsModels q'')
            = map (record_distance camera q') (visibleTransparentsModels q') \<and>
          (distinct (map (record_distance camera q) (visibleTransparentsModels q)) \<longrightarrow> q'' = q')))"
proof (intro conjI allI impI)
  let ?d = "record_distance camera q"
  have "Sort camera q (q\<lparr>visibleTransparentsModels := sort_key ?d (visibleTransparentsModels q)\<rparr>)"
    by (simp add: Sort_static [OF assms])
  then show "\<exists>q'. Sort camera q q'" ..
next
  fix q' assume "Sort camera q q'"
  then show "mset (visibleTransparentsModels q') = mset (visibleTransparentsModels q)"
    by (simp add: Sort_static [OF assms])
next
  fix q' q''
  let ?d = "record_distance camera q"
  assume 1: "Sort camera q q'" and 2: "Sort camera q' q''"
  from 1 have p1: "mset (visibleTransparentsModels q') = mset (visibleTransparentsModels q)"
    and s1: "sorted (map ?d (visibleTransparentsModels q'))"
    and e1: "q' = q\<lparr>visibleTransparentsModels := visibleTransparentsModels q'\<rparr>"
    by (simp_all add: Sort_static [OF assms])
  have st': "static_entries_only q'"
    using static_entries_only_perm [OF assms p1] e1 by simp
  have d': "record_distance camera q' = ?d"
    by (subst e1) simp
  from 2 have p2: "mset (visibleTransparentsModels q'') = mset (visibleTransparentsModels q')"
    and s2: "sorted (map ?d (visibleTransparentsModels q''))"
    and e2: "q'' = q'\<lparr>visibleTransparentsModels := visibleTransparentsModels q''\<rparr>"
    by (simp_all add: Sort_static [OF st'] d')
  have d'': "record_distance camera q'' = ?d"
    by (subst e2) (simp add: d')
  show "mset (visibleTransparentsModels q'') = mset (visibleTransparentsModels q)"
    using p1 p2 by simp
  have keys: "map ?d (visibleTransparentsModels q'') = map ?d (visibleTransparentsModels q')"
    by (rule sorted_perm_same_keys [OF p2 s1 s2])
  then show "map (record_distance camera q'') (visibleTransparentsModels q'')
      = map (record_distance camera q') (visibleTransparentsModels q')"
    by (simp add: d' d'')
  assume "distinct (map ?d (visibleTransparentsModels q))"
  then have "distinct (map ?d (visibleTransparentsModels q'))"
    using p1 by (metis distinct_map mset_eq_setD mset_eq_imp_distinct_iff)
  with keys p2 have "visibleTransparentsModels q'' = visibleTransparentsModels q'"
    by (rule map_eq_perm_distinct)
  with e2 show "q'' = q'" by simp
qed

theorem Sort_static_permutation_resort_witness:
  "static_entries_only far_near_queue \<and>
   distinct (map (record_distance camera_along_z far_near_queue) (visibleTransparentsModels far_near_queue)) \<and>
   Sort camera_along_z far_near_queue (far_near_queue\<lparr>visibleTransparentsModels := [(1, True), (0, True)]\<rparr>) \<and>
   Sort camera_along_z (far_near_queue\<lparr>visibleTransparentsModels := [(1, True), (0, True)]\<rparr>)
     (far_near_queue\<lparr>visibleTransparentsModels := [(1, True), (0, True)]\<rparr>) \<and>
   \<not> Sort camera_along_z (far_near_queue\<lparr>visibleTransparentsModels := [(1, True), (0, True)]\<rparr>)
     far_near_queue"
proof -
  let ?q' = "far_near_queue\<lparr>visibleTransparentsModels := [(1, True), (0, True)]\<rparr>"
  have st: "static_entries_only far_near_queue"
    by (simp add: static_entries_only_def far_near_queue_def empty_queue_def)
  have di: "distinct (map (record_distance camera_along_z far_near_queue)
      (visibleTransparentsModels far_near_queue))"
    by (simp add: record_distance_def far_near_queue_def empty_queue_def camera_along_z_def)
  have s1: "Sort camera_along_z far_near_queue ?q'"
    by (simp add: Sort_def std_sort_def strict_weak_ordering_def TransparentModelComparator_def
      comparator_reads_in_range_def far_near_queue_def empty_queue_def camera_along_z_def)
  have s2: "Sort camera_along_z ?q' ?q'"
    by (simp add: Sort_def std_sort_def strict_weak_ordering_def TransparentModelComparator_def
      comparator_reads_in_range_def far_near_queue_def empty_queue_def camera_along_z_def)
  have ne: "far_near_queue \<noteq> ?q'"
    by (simp add: far_near_queue_def empty_queue_def)
  have "\<not> Sort camera_along_z ?q' far_near_queue"
    using Sort_static_permutation_resort [OF st, of camera_along_z] s1 di ne by blast
  with st di s1 s2 show ?thesis by simp
qed

section \<open>Properties of the grouping maps\<close>

lemma std_map_find_at:
  "\<not> cmp k k \<Longrightarrow>
   std_map_find cmp k (std_map_at cmp k d f m)
     = Some (f (case std_map_find cmp k m of None \<Rightarrow> d | Some v \<Rightarrow> v))"
  by (induction m) auto

lemma set_keys_std_map_at:
  assumes "strict_total_order cmp"
  shows "fst ` set (std_map_at cmp k d f m) = insert k (fst ` set m)"
proof (induction m)
  case Nil
  show ?case by simp
next
  case (Cons e m)
  obtain k' v where e: "e = (k', v)" by (cases e)
  have tot: "\<And>a b. a \<noteq> b \<Longrightarrow> cmp a b \<or> cmp b a"
    using assms unfolding strict_total_order_def by blast
  show ?case
  proof (cases "cmp k k'")
    case True
    with e show ?thesis by simp
  next
    case nlt: False
    show ?thesis
    proof (cases "cmp k' k")
      case True
      with nlt e Cons show ?thesis by auto
    next
      case False
      with nlt tot have "k' = k" by blast
      with False nlt e show ?thesis by simp
    qed
  qed
qed

lemma sorted_std_map_at:
  assumes "strict_total_order cmp" "sorted_wrt cmp (map fst m)"
  shows "sorted_wrt cmp (map fst (std_map_at cmp k d f m))"
  using assms(2)
proof (induction m)
  case Nil
  then show ?case by simp
next
  case (Cons e m)
  obtain k' v where e: "e = (k', v)" by (cases e)
  have tr: "\<And>a b c. cmp a b \<Longrightarrow> cmp b c \<Longrightarrow> cmp a c"
    using assms(1) unfolding strict_total_order_def by blast
  have keys: "fst ` set (std_map_at cmp k d f m) = insert k (fst ` set m)"
    by (rule set_keys_std_map_at [OF assms(1)])
  show ?case
  proof (cases "cmp k k'")
    case True
    with Cons.prems e tr show ?thesis by auto
  next
    case nlt: False
    show ?thesis
    proof (cases "cmp k' k")
      case True
      have "\<forall>x\<in>set (std_map_at cmp k d f m). cmp k' (fst x)"
      proof
        fix x assume "x \<in> set (std_map_at cmp k d f m)"
        then have "fst x \<in> insert k (fst ` set m)" using keys by blast
        with True Cons.prems e show "cmp k' (fst x)" by auto
      qed
      with Cons True nlt e show ?thesis by auto
    next
      case False
      with Cons.prems nlt e show ?thesis by auto
    qed
  qed
qed

lemma std_map_at_values:
  assumes "\<forall>e\<in>set m. P (snd e)" and d: "P d" and f: "\<And>v. P v \<Longrightarrow> P (f v)"
  shows "\<forall>e\<in>set (std_map_at cmp k d f m). P (snd e)"
  using assms(1)
proof (induction m)
  case Nil
  from f [OF d] show ?case by simp
next
  case (Cons e m)
  obtain k' v where e: "e = (k', v)" by (cases e)
  from Cons.prems e have v: "P v" and m: "\<forall>e\<in>set m. P (snd e)" by auto
  from f [OF d] f [OF v] v m Cons.IH [OF m] e show ?case by auto
qed

lemma irrefl_Material: "\<not> MaterialComparator h a a"
  using MaterialComparator_total [of h] unfolding strict_total_order_def by blast

lemma irrefl_Static: "\<not> StaticMeshComparator h a a"
  using strict_total_order_StaticMeshComparator [of h] unfolding strict_total_order_def by blast

lemma opaque_bucket_group:
  "opaque_bucket h (q\<lparr>visibleModels := group_opaque h material staticMesh T (visibleModels q)\<rparr>)
       material staticMesh
     = opaque_bucket h q material staticMesh @ [T]"
  by (simp add: opaque_bucket_def group_opaque_def std_map_find_at irrefl_Material irrefl_Static
      split: option.splits)

lemma ordered_group:
  assumes "visibleModels_ordered h q"
  shows "visibleModels_ordered h
     (q\<lparr>visibleModels := group_opaque h material staticMesh T (visibleModels q)\<rparr>)"
proof -
  let ?P = "\<lambda>v :: (addr \<times> 'a list) list \<times> 'a StaticMeshContainer.
     sorted_wrt (StaticMeshComparator h) (map fst (snd v))"
  have outer: "sorted_wrt (MaterialComparator h)
      (map fst (group_opaque h material staticMesh T (visibleModels q)))"
    unfolding group_opaque_def using assms
    by (intro sorted_std_map_at MaterialComparator_total) (simp add: visibleModels_ordered_def)
  have inner: "\<forall>e\<in>set (group_opaque h material staticMesh T (visibleModels q)). ?P (snd e)"
    unfolding group_opaque_def
  proof (rule std_map_at_values)
    show "\<forall>e\<in>set (visibleModels q). ?P (snd e)"
      using assms by (simp add: visibleModels_ordered_def)
    show "?P ([], [])" by simp
    fix v assume "?P v"
    then show "?P (fst v, std_map_at (StaticMeshComparator h) staticMesh []
        (\<lambda>matrices. matrices @ [T]) (snd v))"
      by (simp add: sorted_std_map_at strict_total_order_StaticMeshComparator)
  qed
  from outer inner show ?thesis by (simp add: visibleModels_ordered_def)
qed

lemma std_map_find_Some:
  assumes "strict_total_order cmp" "std_map_find cmp k m = Some v"
  shows "(k, v) \<in> set m"
  using assms(2)
proof (induction m)
  case Nil
  then show ?case by simp
next
  case (Cons e m)
  obtain k' v' where e: "e = (k', v')" by (cases e)
  have tot: "\<And>a b. a \<noteq> b \<Longrightarrow> cmp a b \<or> cmp b a"
    using assms(1) unfolding strict_total_order_def by blast
  show ?case
  proof (cases "cmp k' k")
    case True
    with Cons e show ?thesis by (auto split: if_splits)
  next
    case False
    with Cons.prems e have "\<not> cmp k k'" and "v' = v" by (auto split: if_splits)
    with False tot have "k' = k" by blast
    with \<open>v' = v\<close> e show ?thesis by simp
  qed
qed

lemma foldl_transparent_keeps_visibleModels:
  "\<forall>sm\<in>set subs. GetAnimationType (subMesh_at h sm) = nzAnimationType_Static \<longrightarrow>
      IsAlphaBlendingEnabled (material_at h (GetMaterial m (GetMaterialIndex (subMesh_at h sm)))) \<Longrightarrow>
   visibleModels (snd (foldl (AddModel_subMesh h m) st subs)) = visibleModels (snd st)"
proof (induction subs arbitrary: st)
  case Nil
  show ?case by simp
next
  case (Cons sm subs)
  have "visibleModels (snd (AddModel_subMesh h m st sm)) = visibleModels (snd st)"
    using Cons.prems by (simp add: AddModel_subMesh_def Let_def split: nzAnimationType.splits)
  with Cons show ?case by simp
qed

lemma foldl_opaque_keeps_transparent:
  "\<forall>sm\<in>set subs. GetAnimationType (subMesh_at h sm) = nzAnimationType_Static \<longrightarrow>
      \<not> IsAlphaBlendingEnabled (material_at h (GetMaterial m (GetMaterialIndex (subMesh_at h sm)))) \<Longrightarrow>
   transparentStaticModels (snd (foldl (AddModel_subMesh h m) st subs)) = transparentStaticModels (snd st)
   \<and> transparentSkeletalModels (snd (foldl (AddModel_subMesh h m) st subs)) = transparentSkeletalModels (snd st)
   \<and> visibleTransparentsModels (snd (foldl (AddModel_subMesh h m) st subs)) = visibleTransparentsModels (snd st)"
proof (induction subs arbitrary: st)
  case Nil
  show ?case by simp
next
  case (Cons sm subs)
  have "transparentStaticModels (snd (AddModel_subMesh h m st sm)) = transparentStaticModels (snd st)
    \<and> transparentSkeletalModels (snd (AddModel_subMesh h m st sm)) = transparentSkeletalModels (snd st)
    \<and> visibleTransparentsModels (snd (AddModel_subMesh h m st sm)) = visibleTransparentsModels (snd st)"
    using Cons.prems by (simp add: AddModel_subMesh_def Let_def split: nzAnimationType.splits)
  with Cons show ?case by simp
qed

lemma AddModel_transparent_keeps_visibleModels:
  assumes "\<forall>sm\<in>set (model_subMeshes h model).
      GetAnimationType (subMesh_at h sm) = nzAnimationType_Static \<longrightarrow>
      IsAlphaBlendingEnabled (material_at h (resolved_material h model sm))"
  shows "visibleModels (snd (AddModel h model q)) = visibleModels q"
proof (cases "model = nullptr \<or> \<not> IsDrawable (model_at h model)")
  case True
  then show ?thesis by (simp add: AddModel_rejected)
next
  case False
  then show ?thesis using assms
    by (simp add: AddModel_loop resolved_material_def foldl_transparent_keeps_visibleModels)
qed

lemma AddModel_opaque_keeps_transparent:
  assumes "\<forall>sm\<in>set (model_subMeshes h model).
      GetAnimationType (subMesh_at h sm) = nzAnimationType_Static \<longrightarrow>
      \<not> IsAlphaBlendingEnabled (material_at h (resolved_material h model sm))"
  shows "transparentStaticModels (snd (AddModel h model q)) = transparentStaticModels q
   \<and> transparentSkeletalModels (snd (AddModel h model q)) = transparentSkeletalModels q
   \<and> visibleTransparentsModels (snd (AddModel h model q)) = visibleTransparentsModels q"
proof (cases "model = nullptr \<or> \<not> IsDrawable (model_at h model)")
  case True
  then show ?thesis by (simp add: AddModel_rejected)
next
  case False
  then show ?thesis
    using foldl_opaque_keeps_transparent [of "model_subMeshes h model" h "model_at h model" "([], q)"] assms
    by (simp add: AddModel_loop resolved_material_def)
qed

lemma std_map_find_at_other:
  assumes "strict_total_order cmp" "k \<noteq> k'"
  shows "std_map_find cmp k (std_map_at cmp k' d f m) = std_map_find cmp k m"
proof (induction m)
  case Nil
  have "cmp k k' \<or> cmp k' k"
    using assms unfolding strict_total_order_def by blast
  then show ?case by auto
next
  case (Cons e m)
  obtain k'' v where e: "e = (k'', v)" by (cases e)
  have tr: "\<And>a b c. cmp a b \<Longrightarrow> cmp b c \<Longrightarrow> cmp a c"
    and tot: "\<And>a b. a \<noteq> b \<Longrightarrow> cmp a b \<or> cmp b a"
    using assms(1) unfolding strict_total_order_def by blast+
  show ?case
  proof (cases "cmp k' k''")
    case True
    have "cmp k k' \<or> cmp k' k" using tot assms(2) by blast
    then show ?thesis
    proof
      assume lt: "cmp k k'"
      from lt True have "cmp k k''" by (rule tr)
      with lt True e show ?thesis by simp
    next
      assume gt: "cmp k' k"
      show ?thesis
      proof (cases "cmp k k'")
        case True
        from True gt have "cmp k k" by (rule tr)
        then show ?thesis using assms(1) unfolding strict_total_order_def by blast
      next
        case False
        with gt \<open>cmp k' k''\<close> e show ?thesis by simp
      qed
    qed
  next
    case nlt: False
    show ?thesis
    proof (cases "cmp k'' k'")
      case True
      with nlt e Cons show ?thesis by simp
    next
      case False
      with nlt tot have eq: "k'' = k'" by blast
      with nlt False e assms(2) tot [of k k'] show ?thesis by auto
    qed
  qed
qed

lemma opaque_bucket_group_any:
  "opaque_bucket h (q\<lparr>visibleModels := group_opaque h material' staticMesh' T (visibleModels q)\<rparr>)
       material staticMesh
     = opaque_bucket h q material staticMesh
         @ (if staticMesh' = staticMesh \<and> material' = material then [T] else [])"
proof (cases "material' = material")
  case False
  then have "std_map_find (MaterialComparator h) material
        (group_opaque h material' staticMesh' T (visibleModels q))
      = std_map_find (MaterialComparator h) material (visibleModels q)"
    unfolding group_opaque_def
    by (intro std_map_find_at_other MaterialComparator_total) simp
  with False show ?thesis by (simp add: opaque_bucket_def)
next
  case mat: True
  show ?thesis
  proof (cases "staticMesh' = staticMesh")
    case True
    with mat show ?thesis by (simp add: opaque_bucket_group)
  next
    case False
    have inner: "std_map_find (StaticMeshComparator h) staticMesh
        (std_map_at (StaticMeshComparator h) staticMesh' [] (\<lambda>matrices. matrices @ [T]) m)
      = std_map_find (StaticMeshComparator h) staticMesh m" for m
      using False by (intro std_map_find_at_other strict_total_order_StaticMeshComparator) simp
    from False mat show ?thesis
      by (simp add: opaque_bucket_def group_opaque_def std_map_find_at irrefl_Material inner
          split: option.splits)
  qed
qed

lemma opaque_bucket_foldl:
  "opaque_bucket h (q\<lparr>visibleModels :=
       foldl (\<lambda>vm sm. group_opaque h (mat sm) sm T vm) (visibleModels q) subs\<rparr>)
       material staticMesh
     = opaque_bucket h q material staticMesh
         @ replicate (length (filter (\<lambda>sm. sm = staticMesh \<and> mat sm = material) subs)) T"
proof (induction subs arbitrary: q)
  case Nil
  show ?case by (simp add: opaque_bucket_def)
next
  case (Cons sm subs)
  let ?q1 = "q\<lparr>visibleModels := group_opaque h (mat sm) sm T (visibleModels q)\<rparr>"
  have "opaque_bucket h (q\<lparr>visibleModels :=
       foldl (\<lambda>vm sm. group_opaque h (mat sm) sm T vm) (visibleModels q) (sm # subs)\<rparr>)
       material staticMesh
     = opaque_bucket h (?q1\<lparr>visibleModels :=
       foldl (\<lambda>vm sm. group_opaque h (mat sm) sm T vm) (visibleModels ?q1) subs\<rparr>)
       material staticMesh"
    by (simp add: opaque_bucket_def)
  also have "\<dots> = opaque_bucket h ?q1 material staticMesh
         @ replicate (length (filter (\<lambda>sm. sm = staticMesh \<and> mat sm = material) subs)) T"
    by (rule Cons.IH)
  also have "\<dots> = opaque_bucket h q material staticMesh
         @ replicate (length (filter (\<lambda>sm. sm = staticMesh \<and> mat sm = material) (sm # subs))) T"
    by (auto simp: opaque_bucket_group_any)
  finally show ?case .
qed

lemma ordered_foldl:
  "visibleModels_ordered h q \<Longrightarrow>
   visibleModels_ordered h (q\<lparr>visibleModels :=
       foldl (\<lambda>vm sm. group_opaque h (mat sm) sm T vm) (visibleModels q) subs\<rparr>)"
proof (induction subs arbitrary: q)
  case Nil
  then show ?case by (simp add: visibleModels_ordered_def)
next
  case (Cons sm subs)
  let ?q1 = "q\<lparr>visibleModels := group_opaque h (mat sm) sm T (visibleModels q)\<rparr>"
  have "visibleModels_ordered h ?q1" by (rule ordered_group [OF Cons.prems])
  from Cons.IH [OF this] show ?case by (simp add: visibleModels_ordered_def)
qed

lemma filter_key_sorted:
  assumes "strict_total_order cmp" "sorted_wrt cmp (map fst m)"
  shows "filter (\<lambda>e. fst e = k) m
     = (case std_map_find cmp k m of None \<Rightarrow> [] | Some v \<Rightarrow> [(k, v)])"
  using assms(2)
proof (induction m)
  case Nil
  show ?case by simp
next
  case (Cons e m)
  obtain k' v where e: "e = (k', v)" by (cases e)
  have irr: "\<And>a. \<not> cmp a a" and tr: "\<And>a b c. cmp a b \<Longrightarrow> cmp b c \<Longrightarrow> cmp a c"
    and tot: "\<And>a b. a \<noteq> b \<Longrightarrow> cmp a b \<or> cmp b a"
    using assms(1) unfolding strict_total_order_def by blast+
  have after: "\<forall>x\<in>set m. cmp k' (fst x)" using Cons.prems e by auto
  from Cons.prems have ih: "filter (\<lambda>e. fst e = k) m
     = (case std_map_find cmp k m of None \<Rightarrow> [] | Some v \<Rightarrow> [(k, v)])"
    by (intro Cons.IH) simp
  show ?case
  proof (cases "cmp k k'")
    case True
    then have "k' \<noteq> k" using irr by auto
    moreover have "\<forall>x\<in>set m. fst x \<noteq> k" using after True tr irr by blast
    ultimately show ?thesis using True e by (simp add: filter_empty_conv)
  next
    case nlt: False
    show ?thesis
    proof (cases "cmp k' k")
      case True
      then have "k' \<noteq> k" using irr by auto
      with True nlt ih e show ?thesis by simp
    next
      case False
      with nlt tot have eq: "k' = k" by blast
      have "\<forall>x\<in>set m. fst x \<noteq> k" using after eq irr by blast
      with False nlt eq e show ?thesis by (simp add: filter_empty_conv)
    qed
  qed
qed

lemma bucket_count_find:
  assumes "visibleModels_ordered h q"
  shows "bucket_count q material staticMesh
     = (case std_map_find (MaterialComparator h) material (visibleModels q) of
          None \<Rightarrow> 0
        | Some entry \<Rightarrow>
            (case std_map_find (StaticMeshComparator h) staticMesh (snd entry) of
               None \<Rightarrow> 0
             | Some matrices \<Rightarrow> 1))"
proof -
  have so: "sorted_wrt (MaterialComparator h) (map fst (visibleModels q))"
    and si: "\<forall>entry\<in>set (visibleModels q). sorted_wrt (StaticMeshComparator h) (map fst (snd (snd entry)))"
    using assms by (simp_all add: visibleModels_ordered_def)
  note outer = filter_key_sorted [OF MaterialComparator_total so, of material]
  show ?thesis
  proof (cases "std_map_find (MaterialComparator h) material (visibleModels q)")
    case None
    with outer show ?thesis by (simp add: bucket_count_def)
  next
    case (Some entry)
    have "(material, entry) \<in> set (visibleModels q)"
      using Some by (rule std_map_find_Some [OF MaterialComparator_total])
    with si have "sorted_wrt (StaticMeshComparator h) (map fst (snd entry))" by force
    from filter_key_sorted [OF strict_total_order_StaticMeshComparator this, of staticMesh]
    have "length (filter (\<lambda>e. fst e = staticMesh) (snd entry))
        = (case std_map_find (StaticMeshComparator h) staticMesh (snd entry) of
             None \<Rightarrow> 0 | Some matrices \<Rightarrow> 1)"
      by (simp split: option.splits)
    with outer Some show ?thesis by (simp add: bucket_count_def)
  qed
qed

lemma bucket_count_le_1:
  "visibleModels_ordered h q \<Longrightarrow> bucket_count q material staticMesh \<le> 1"
  by (simp add: bucket_count_find split: option.splits)

lemma bucket_count_nonempty:
  "visibleModels_ordered h q \<Longrightarrow> opaque_bucket h q material staticMesh \<noteq> [] \<Longrightarrow>
   bucket_count q material staticMesh = 1"
  by (auto simp: bucket_count_find opaque_bucket_def split: option.splits)

lemma upt_from_Suc: "[L..<Suc (L + n)] = L # [Suc L..<Suc (L + n)]"
  by (simp add: upt_conv_Cons del: upt_Suc)

lemma foldl_AddModel_subMesh:
  "snd (foldl (AddModel_subMesh h m) (errs, q) subs) =
     q\<lparr>visibleModels :=
         foldl (\<lambda>vm sm. group_opaque h (GetMaterial m (GetMaterialIndex (subMesh_at h sm))) sm
                  (GetTransformMatrix m) vm) (visibleModels q)
           (filter (\<lambda>sm. \<not> IsAlphaBlendingEnabled
                (material_at h (GetMaterial m (GetMaterialIndex (subMesh_at h sm)))))
              (filter (\<lambda>sm. GetAnimationType (subMesh_at h sm) = nzAnimationType_Static) subs)),
       transparentStaticModels := transparentStaticModels q @
         map (\<lambda>sm. \<lparr>static_material = GetMaterial m (GetMaterialIndex (subMesh_at h sm)),
                    static_mesh = sm, static_transformMatrix = GetTransformMatrix m\<rparr>)
           (filter (\<lambda>sm. IsAlphaBlendingEnabled
                (material_at h (GetMaterial m (GetMaterialIndex (subMesh_at h sm)))))
              (filter (\<lambda>sm. GetAnimationType (subMesh_at h sm) = nzAnimationType_Static) subs)),
       visibleTransparentsModels := visibleTransparentsModels q @
         map (\<lambda>i. (i, True))
           [length (transparentStaticModels q)..<length (transparentStaticModels q) +
              length (filter (\<lambda>sm. IsAlphaBlendingEnabled
                (material_at h (GetMaterial m (GetMaterialIndex (subMesh_at h sm)))))
              (filter (\<lambda>sm. GetAnimationType (subMesh_at h sm) = nzAnimationType_Static) subs))]\<rparr>"
proof (induction subs arbitrary: errs q)
  case Nil
  show ?case by simp
next
  case (Cons sm subs)
  show ?case
  proof (cases "GetAnimationType (subMesh_at h sm)")
    case nzAnimationType_Skeletal
    then have "AddModel_subMesh h m (errs, q) sm = (errs @ [Skeletal_mesh_not_supported], q)"
      by (simp add: AddModel_subMesh_def)
    with nzAnimationType_Skeletal Cons.IH [of "errs @ [Skeletal_mesh_not_supported]" q]
    show ?thesis by simp
  next
    case st: nzAnimationType_Static
    show ?thesis
    proof (cases "IsAlphaBlendingEnabled
        (material_at h (GetMaterial m (GetMaterialIndex (subMesh_at h sm))))")
      case True
      let ?q1 = "q\<lparr>transparentStaticModels := transparentStaticModels q @
          [\<lparr>static_material = GetMaterial m (GetMaterialIndex (subMesh_at h sm)),
            static_mesh = sm, static_transformMatrix = GetTransformMatrix m\<rparr>],
          visibleTransparentsModels := visibleTransparentsModels q @
            [(length (transparentStaticModels q), True)]\<rparr>"
      have step: "AddModel_subMesh h m (errs, q) sm = (errs, ?q1)"
        using st True by (simp add: AddModel_subMesh_def Let_def)
      show ?thesis
        using st True Cons.IH [of errs ?q1]
        by (simp add: step upt_from_Suc del: upt_Suc)
    next
      case False
      let ?q1 = "q\<lparr>visibleModels :=
          group_opaque h (GetMaterial m (GetMaterialIndex (subMesh_at h sm))) sm
            (GetTransformMatrix m) (visibleModels q)\<rparr>"
      have step: "AddModel_subMesh h m (errs, q) sm = (errs, ?q1)"
        using st False by (simp add: AddModel_subMesh_def group_opaque_def Let_def)
      show ?thesis
        using st False Cons.IH [of errs ?q1]
        by (simp add: step)
    qed
  qed
qed

lemma AddModel_result:
  "snd (AddModel h model q)
     = q\<lparr>visibleModels :=
           foldl (\<lambda>vm sm. group_opaque h (resolved_material h model sm) sm
                    (GetTransformMatrix (model_at h model)) vm)
             (visibleModels q) (opaque_submissions h model),
         transparentStaticModels := transparentStaticModels q @
           map (\<lambda>sm. \<lparr>static_material = resolved_material h model sm, static_mesh = sm,
                      static_transformMatrix = GetTransformMatrix (model_at h model)\<rparr>)
             (transparent_submissions h model),
         visibleTransparentsModels := visibleTransparentsModels q @
           map (\<lambda>i. (i, True))
             [length (transparentStaticModels q)..<length (transparentStaticModels q)
                + length (transparent_submissions h model)]\<rparr>"
proof (cases "model = nullptr \<or> \<not> IsDrawable (model_at h model)")
  case True
  then show ?thesis
    by (simp add: AddModel_rejected opaque_submissions_def transparent_submissions_def
        submitted_subMeshes_def)
next
  case False
  then show ?thesis
    by (simp add: AddModel_loop foldl_AddModel_subMesh opaque_submissions_def
        transparent_submissions_def submitted_subMeshes_def resolved_material_def)
qed

lemma AddModel_opaque_bucket:
  "opaque_bucket h (snd (AddModel h model q)) material staticMesh
     = opaque_bucket h q material staticMesh
         @ replicate (occurrences h model material staticMesh)
             (GetTransformMatrix (model_at h model))"
proof -
  let ?F = "foldl (\<lambda>vm sm. group_opaque h (resolved_material h model sm) sm
                    (GetTransformMatrix (model_at h model)) vm)
             (visibleModels q) (opaque_submissions h model)"
  have "visibleModels (snd (AddModel h model q)) = ?F"
    by (subst AddModel_result) simp
  then have "opaque_bucket h (snd (AddModel h model q)) material staticMesh
      = opaque_bucket h (q\<lparr>visibleModels := ?F\<rparr>) material staticMesh"
    by (simp add: opaque_bucket_def)
  also have "\<dots> = opaque_bucket h q material staticMesh
         @ replicate (occurrences h model material staticMesh)
             (GetTransformMatrix (model_at h model))"
    unfolding occurrences_def by (rule opaque_bucket_foldl)
  finally show ?thesis .
qed

lemma AddModel_ordered:
  assumes "visibleModels_ordered h q"
  shows "visibleModels_ordered h (snd (AddModel h model q))"
proof -
  let ?F = "foldl (\<lambda>vm sm. group_opaque h (resolved_material h model sm) sm
                    (GetTransformMatrix (model_at h model)) vm)
             (visibleModels q) (opaque_submissions h model)"
  have "visibleModels (snd (AddModel h model q)) = visibleModels (q\<lparr>visibleModels := ?F\<rparr>)"
    by (subst AddModel_result) simp
  moreover have "visibleModels_ordered h (q\<lparr>visibleModels := ?F\<rparr>)"
    using assms by (rule ordered_foldl)
  ultimately show ?thesis by (simp add: visibleModels_ordered_def)
qed

lemma occurrences_alpha:
  "IsAlphaBlendingEnabled (material_at h material) \<Longrightarrow> occurrences h model material staticMesh = 0"
  by (auto simp: occurrences_def opaque_submissions_def filter_empty_conv)

text \<open>Every queue built through the interface over one scene has its grouping maps in
  the order of their comparators.\<close>

lemma reachable_ordered: "reachable h q \<Longrightarrow> visibleModels_ordered h q"
proof (induction rule: reachable.induct)
  case reachable_new
  show ?case by (simp add: visibleModels_ordered_def)
next
  case (reachable_AddDrawable q drawable)
  then show ?case by (simp add: AddDrawable_def visibleModels_ordered_def)
next
  case (reachable_AddLight q debug light)
  then show ?case by (simp add: AddLight_def visibleModels_ordered_def Let_def)
next
  case (reachable_AddModel q model)
  then show ?case by (simp add: AddModel_ordered)
next
  case (reachable_Clear q)
  show ?case by (simp add: Clear_def visibleModels_ordered_def)
next
  case (reachable_Sort q camera q')
  from reachable_Sort.hyps(2)
  have "q' = q\<lparr>visibleTransparentsModels := visibleTransparentsModels q'\<rparr>"
    by (simp add: Sort_def Let_def)
  then have "visibleModels q' = visibleModels q"
    by (metis NzForwardRenderQueue.select_convs(4) NzForwardRenderQueue.surjective
        NzForwardRenderQueue.update_convs(5))
  with reachable_Sort.IH show ?case by (simp add: visibleModels_ordered_def)
qed

text \<open>
  C4.  AddModel leaves the queue it was given with, and only with: the transform matrix
  of the model appended to the bucket of the (material, sub-mesh) pair of each static
  sub-mesh whose resolved material is opaque, in the order of the mesh; and one record
  appended to the static transparent store, with its index appended to the index list, for
  each static sub-mesh whose resolved material is alpha-blended.  So the bucket of a
  (material, mesh) pair gains the model's matrix once for each opaque submission of that
  pair; after two models, on grouping maps in the order of their comparators, there is at
  most one bucket for the pair, exactly one when either model submitted it, and it holds
  what it held before, then the first model's matrices, then the second's: the two
  matrices in submission order when each model submits the pair once.  Nothing enters
  a bucket of an alpha-blended material; every record added to the transparent store has an
  alpha-blended material; the skeletal store is left as it was; a model whose static
  sub-meshes all resolve alpha-blended materials leaves the grouping maps as they were, and
  a model whose static sub-meshes all resolve opaque materials leaves the transparent
  stores and the index list as they were.  Every queue built through the interface over
  the scene has its grouping maps in the order of their comparators.
\<close>

theorem AddModel_grouping:
  "snd (AddModel h model q)
     = q\<lparr>visibleModels :=
           foldl (\<lambda>vm sm. group_opaque h (resolved_material h model sm) sm
                    (GetTransformMatrix (model_at h model)) vm)
             (visibleModels q) (opaque_submissions h model),
         transparentStaticModels := transparentStaticModels q @
           map (\<lambda>sm. \<lparr>static_material = resolved_material h model sm, static_mesh = sm,
                      static_transformMatrix = GetTransformMatrix (model_at h model)\<rparr>)
             (transparent_submissions h model),
         visibleTransparentsModels := visibleTransparentsModels q @
           map (\<lambda>i. (i, True))
             [length (transparentStaticModels q)..<length (transparentStaticModels q)
                + length (transparent_submissions h model)]\<rparr>
   \<and> opaque_bucket h (snd (AddModel h model q)) material staticMesh
       = opaque_bucket h q material staticMesh
           @ replicate (occurrences h model material staticMesh)
               (GetTransformMatrix (model_at h model))
   \<and> (visibleModels_ordered h q \<longrightarrow>
        (let q2 = snd (AddModel h modelB (snd (AddModel h modelA q))) in
           visibleModels_ordered h q2
           \<and> bucket_count q2 material staticMesh \<le> 1
           \<and> (0 < occurrences h modelA material staticMesh
                    + occurrences h modelB material staticMesh \<longrightarrow>
                bucket_count q2 material staticMesh = 1)
           \<and> opaque_bucket h q2 material staticMesh
               = opaque_bucket h q material staticMesh
                   @ replicate (occurrences h modelA material staticMesh)
                       (GetTransformMatrix (model_at h modelA))
                   @ replicate (occurrences h modelB material staticMesh)
                       (GetTransformMatrix (model_at h modelB))
           \<and> (occurrences h modelA material staticMesh = 1
                \<and> occurrences h modelB material staticMesh = 1 \<longrightarrow>
                opaque_bucket h q2 material staticMesh
                  = opaque_bucket h q material staticMesh
                      @ [GetTransformMatrix (model_at h modelA),
                         GetTransformMatrix (model_at h modelB)])))
   \<and> (IsAlphaBlendingEnabled (material_at h material) \<longrightarrow>
        opaque_bucket h (snd (AddModel h model q)) material staticMesh
          = opaque_bucket h q material staticMesh)
   \<and> (\<forall>r\<in>set (drop (length (transparentStaticModels q))
                  (transparentStaticModels (snd (AddModel h model q)))).
        IsAlphaBlendingEnabled (material_at h (static_material r)))
   \<and> transparentSkeletalModels (snd (AddModel h model q)) = transparentSkeletalModels q
   \<and> ((\<forall>sm\<in>set (model_subMeshes h model).
          GetAnimationType (subMesh_at h sm) = nzAnimationType_Static \<longrightarrow>
          IsAlphaBlendingEnabled (material_at h (resolved_material h model sm))) \<longrightarrow>
        visibleModels (snd (AddModel h model q)) = visibleModels q)
   \<and> ((\<forall>sm\<in>set (model_subMeshes h model).
          GetAnimationType (subMesh_at h sm) = nzAnimationType_Static \<longrightarrow>
          \<not> IsAlphaBlendingEnabled (material_at h (resolved_material h model sm))) \<longrightarrow>
        transparentStaticModels (snd (AddModel h model q)) = transparentStaticModels q
        \<and> transparentSkeletalModels (snd (AddModel h model q)) = transparentSkeletalModels q
        \<and> visibleTransparentsModels (snd (AddModel h model q)) = visibleTransparentsModels q)
   \<and> (reachable h q \<longrightarrow> visibleModels_ordered h q)"
proof (intro conjI impI)
  show "snd (AddModel h model q)
     = q\<lparr>visibleModels :=
           foldl (\<lambda>vm sm. group_opaque h (resolved_material h model sm) sm
                    (GetTransformMatrix (model_at h model)) vm)
             (visibleModels q) (opaque_submissions h model),
         transparentStaticModels := transparentStaticModels q @
           map (\<lambda>sm. \<lparr>static_material = resolved_material h model sm, static_mesh = sm,
                      static_transformMatrix = GetTransformMatrix (model_at h model)\<rparr>)
             (transparent_submissions h model),
         visibleTransparentsModels := visibleTransparentsModels q @
           map (\<lambda>i. (i, True))
             [length (transparentStaticModels q)..<length (transparentStaticModels q)
                + length (transparent_submissions h model)]\<rparr>"
    by (rule AddModel_result)
  show "opaque_bucket h (snd (AddModel h model q)) material staticMesh
       = opaque_bucket h q material staticMesh
           @ replicate (occurrences h model material staticMesh)
               (GetTransformMatrix (model_at h model))"
    by (rule AddModel_opaque_bucket)
next
  assume o: "visibleModels_ordered h q"
  let ?q1 = "snd (AddModel h modelA q)"
  let ?q2 = "snd (AddModel h modelB ?q1)"
  let ?nA = "occurrences h modelA material staticMesh"
  let ?nB = "occurrences h modelB material staticMesh"
  let ?TA = "GetTransformMatrix (model_at h modelA)"
  let ?TB = "GetTransformMatrix (model_at h modelB)"
  have o2: "visibleModels_ordered h ?q2"
    by (intro AddModel_ordered o)
  have b: "opaque_bucket h ?q2 material staticMesh
      = opaque_bucket h q material staticMesh @ replicate ?nA ?TA @ replicate ?nB ?TB"
    by (simp only: AddModel_opaque_bucket append_assoc)
  have le: "bucket_count ?q2 material staticMesh \<le> 1"
    by (rule bucket_count_le_1 [OF o2])
  have one: "0 < ?nA + ?nB \<longrightarrow> bucket_count ?q2 material staticMesh = 1"
  proof
    assume "0 < ?nA + ?nB"
    then have "opaque_bucket h ?q2 material staticMesh \<noteq> []"
      unfolding b by auto
    with o2 show "bucket_count ?q2 material staticMesh = 1"
      by (rule bucket_count_nonempty)
  qed
  have two: "?nA = 1 \<and> ?nB = 1 \<longrightarrow>
      opaque_bucket h ?q2 material staticMesh
        = opaque_bucket h q material staticMesh @ [?TA, ?TB]"
    unfolding b by simp
  from o2 le one b two
  show "let q2 = snd (AddModel h modelB (snd (AddModel h modelA q))) in
           visibleModels_ordered h q2
           \<and> bucket_count q2 material staticMesh \<le> 1
           \<and> (0 < ?nA + ?nB \<longrightarrow> bucket_count q2 material staticMesh = 1)
           \<and> opaque_bucket h q2 material staticMesh
               = opaque_bucket h q material staticMesh
                   @ replicate ?nA ?TA @ replicate ?nB ?TB
           \<and> (?nA = 1 \<and> ?nB = 1 \<longrightarrow>
                opaque_bucket h q2 material staticMesh
                  = opaque_bucket h q material staticMesh @ [?TA, ?TB])"
    unfolding Let_def by blast
next
  assume "IsAlphaBlendingEnabled (material_at h material)"
  then show "opaque_bucket h (snd (AddModel h model q)) material staticMesh
          = opaque_bucket h q material staticMesh"
    by (simp add: AddModel_opaque_bucket occurrences_alpha)
next
  have "transparentStaticModels (snd (AddModel h model q))
      = transparentStaticModels q @
           map (\<lambda>sm. \<lparr>static_material = resolved_material h model sm, static_mesh = sm,
                      static_transformMatrix = GetTransformMatrix (model_at h model)\<rparr>)
             (transparent_submissions h model)"
    by (subst AddModel_result) simp
  then show "\<forall>r\<in>set (drop (length (transparentStaticModels q))
                  (transparentStaticModels (snd (AddModel h model q)))).
        IsAlphaBlendingEnabled (material_at h (static_material r))"
    by (auto simp: transparent_submissions_def)
  show "transparentSkeletalModels (snd (AddModel h model q)) = transparentSkeletalModels q"
    by (subst AddModel_result) simp
next
  assume "\<forall>sm\<in>set (model_subMeshes h model).
          GetAnimationType (subMesh_at h sm) = nzAnimationType_Static \<longrightarrow>
          IsAlphaBlendingEnabled (material_at h (resolved_material h model sm))"
  then show "visibleModels (snd (AddModel h model q)) = visibleModels q"
    by (rule AddModel_transparent_keeps_visibleModels)
next
  assume a: "\<forall>sm\<in>set (model_subMeshes h model).
          GetAnimationType (subMesh_at h sm) = nzAnimationType_Static \<longrightarrow>
          \<not> IsAlphaBlendingEnabled (material_at h (resolved_material h model sm))"
  from AddModel_opaque_keeps_transparent [OF a]
  show "transparentStaticModels (snd (AddModel h model q)) = transparentStaticModels q"
    and "transparentSkeletalModels (snd (AddModel h model q)) = transparentSkeletalModels q"
    and "visibleTransparentsModels (snd (AddModel h model q)) = visibleTransparentsModels q"
    by simp_all
next
  assume "reachable h q"
  then show "visibleModels_ordered h q" by (rule reachable_ordered)
qed


theorem AddModel_grouping_witness:
  "reachable scene_heap empty_queue
   \<and> visibleModels_ordered scene_heap empty_queue
   \<and> occurrences scene_heap 1 1 10 = 1 \<and> occurrences scene_heap 2 1 10 = 1
   \<and> opaque_bucket scene_heap
         (snd (AddModel scene_heap 2 (snd (AddModel scene_heap 1 empty_queue)))) 1 10
       = [(0, 0, 1), (0, 0, 2)]
   \<and> bucket_count (snd (AddModel scene_heap 2 (snd (AddModel scene_heap 1 empty_queue)))) 1 10 = 1
   \<and> snd (AddModel scene_heap 5 empty_queue)
       = empty_queue\<lparr>visibleModels := [(1, [], [(10, [(0, 0, 5)])])],
           transparentStaticModels :=
             [\<lparr>static_material = 2, static_mesh = 11, static_transformMatrix = (0, 0, 5)\<rparr>],
           visibleTransparentsModels := [(0, True)]\<rparr>
   \<and> opaque_bucket scene_heap
         (snd (AddModel scene_heap 6 (snd (AddModel scene_heap 5 empty_queue)))) 1 10
       = [(0, 0, 5), (0, 0, 6)]
   \<and> bucket_count (snd (AddModel scene_heap 6 (snd (AddModel scene_heap 5 empty_queue)))) 1 10 = 1
   \<and> IsAlphaBlendingEnabled (material_at scene_heap 2)
   \<and> opaque_bucket scene_heap (snd (AddModel scene_heap 5 empty_queue)) 2 11 = []
   \<and> visibleModels (snd (AddModel scene_heap 3 empty_queue)) = []
   \<and> visibleTransparentsModels (snd (AddModel scene_heap 1 empty_queue)) = []"
proof -
  have r: "reachable scene_heap empty_queue"
    by (rule reachable_empty_queue)
  have o: "visibleModels_ordered scene_heap empty_queue"
    using AddModel_grouping [where h = scene_heap and q = empty_queue,
        THEN conjunct2, THEN conjunct2, THEN conjunct2, THEN conjunct2, THEN conjunct2,
        THEN conjunct2, THEN conjunct2, THEN conjunct2] r
    by simp
  have e: "visibleModels empty_queue = []" "transparentStaticModels empty_queue = []"
    "visibleTransparentsModels empty_queue = []"
    "opaque_bucket scene_heap empty_queue material staticMesh = []" for material staticMesh
    by (simp_all add: empty_queue_def opaque_bucket_def)
  have t: "GetTransformMatrix (model_at scene_heap 1) = (0, 0, 1)"
    "GetTransformMatrix (model_at scene_heap 2) = (0, 0, 2)"
    "GetTransformMatrix (model_at scene_heap 5) = (0, 0, 5)"
    "GetTransformMatrix (model_at scene_heap 6) = (0, 0, 6)"
    by (simp_all add: scene_heap_def)
  have subs: "opaque_submissions scene_heap 5 = [10]" "transparent_submissions scene_heap 5 = [11]"
    "resolved_material scene_heap 5 10 = 1" "resolved_material scene_heap 5 11 = 2"
    by (simp_all add: opaque_submissions_def transparent_submissions_def submitted_subMeshes_def
        model_subMeshes_def resolved_material_def scene_heap_def nullptr_def)
  have occ: "occurrences scene_heap 1 1 10 = 1" "occurrences scene_heap 2 1 10 = 1"
    "occurrences scene_heap 5 1 10 = 1" "occurrences scene_heap 6 1 10 = 1"
    by (simp_all add: occurrences_def opaque_submissions_def submitted_subMeshes_def
        model_subMeshes_def resolved_material_def scene_heap_def nullptr_def)
  have al: "IsAlphaBlendingEnabled (material_at scene_heap 2)"
    by (simp add: scene_heap_def)
  have all3: "\<forall>sm\<in>set (model_subMeshes scene_heap 3).
      GetAnimationType (subMesh_at scene_heap sm) = nzAnimationType_Static \<longrightarrow>
      IsAlphaBlendingEnabled (material_at scene_heap (resolved_material scene_heap 3 sm))"
    by (simp add: model_subMeshes_def resolved_material_def scene_heap_def)
  have all1: "\<forall>sm\<in>set (model_subMeshes scene_heap 1).
      GetAnimationType (subMesh_at scene_heap sm) = nzAnimationType_Static \<longrightarrow>
      \<not> IsAlphaBlendingEnabled (material_at scene_heap (resolved_material scene_heap 1 sm))"
    by (simp add: model_subMeshes_def resolved_material_def scene_heap_def)
  have a: "opaque_bucket scene_heap
         (snd (AddModel scene_heap 2 (snd (AddModel scene_heap 1 empty_queue)))) 1 10
       = [(0, 0, 1), (0, 0, 2)]
     \<and> bucket_count (snd (AddModel scene_heap 2 (snd (AddModel scene_heap 1 empty_queue)))) 1 10 = 1"
    using AddModel_grouping [where h = scene_heap and q = empty_queue and modelA = 1
        and modelB = 2 and material = 1 and staticMesh = 10,
        THEN conjunct2, THEN conjunct2, THEN conjunct1] o occ t e
    by (simp add: Let_def)
  have b: "snd (AddModel scene_heap 5 empty_queue)
       = empty_queue\<lparr>visibleModels := [(1, [], [(10, [(0, 0, 5)])])],
           transparentStaticModels :=
             [\<lparr>static_material = 2, static_mesh = 11, static_transformMatrix = (0, 0, 5)\<rparr>],
           visibleTransparentsModels := [(0, True)]\<rparr>"
    using AddModel_grouping [where h = scene_heap and q = empty_queue and model = 5,
        THEN conjunct1] subs t e
    by (simp add: group_opaque_def)
  have c: "opaque_bucket scene_heap
         (snd (AddModel scene_heap 6 (snd (AddModel scene_heap 5 empty_queue)))) 1 10
       = [(0, 0, 5), (0, 0, 6)]
     \<and> bucket_count (snd (AddModel scene_heap 6 (snd (AddModel scene_heap 5 empty_queue)))) 1 10 = 1"
    using AddModel_grouping [where h = scene_heap and q = empty_queue and modelA = 5
        and modelB = 6 and material = 1 and staticMesh = 10,
        THEN conjunct2, THEN conjunct2, THEN conjunct1] o occ t e
    by (simp add: Let_def)
  have d: "opaque_bucket scene_heap (snd (AddModel scene_heap 5 empty_queue)) 2 11 = []"
    using AddModel_grouping [where h = scene_heap and q = empty_queue and model = 5
        and material = 2 and staticMesh = 11,
        THEN conjunct2, THEN conjunct2, THEN conjunct2, THEN conjunct1] al e
    by simp
  have f: "visibleModels (snd (AddModel scene_heap 3 empty_queue)) = []"
    using AddModel_grouping [where h = scene_heap and q = empty_queue and model = 3,
        THEN conjunct2, THEN conjunct2, THEN conjunct2, THEN conjunct2, THEN conjunct2,
        THEN conjunct2, THEN conjunct1] all3 e
    by simp
  have g: "visibleTransparentsModels (snd (AddModel scene_heap 1 empty_queue)) = []"
    using AddModel_grouping [where h = scene_heap and q = empty_queue and model = 1,
        THEN conjunct2, THEN conjunct2, THEN conjunct2, THEN conjunct2, THEN conjunct2,
        THEN conjunct2, THEN conjunct2, THEN conjunct1] all1 e
    by simp
  from r o occ(1,2) a b c al d f g show ?thesis by simp
qed

section \<open>Rejected and classified submissions\<close>

text \<open>
  C8.  A null pointer given to AddDrawable, AddLight or AddModel is reported as an error
  and the queue is left as it was.  A light that is not null is appended to the directional
  lights when its type is Directional and to the visible lights when it is Point or Spot;
  with any other type value the queue is left as it was, and the value is reported in
  debug builds only.
\<close>

theorem null_submissions_and_AddLight:
  "AddDrawable nullptr q = ([Invalid_drawable], q)
   \<and> AddLight NAZARA_DEBUG h nullptr q = ([Invalid_light], q)
   \<and> AddModel h nullptr q = ([Invalid_model], q)
   \<and> (light \<noteq> nullptr \<and> GetLightType (light_at h light) = nzLightType_Directional \<longrightarrow>
        AddLight NAZARA_DEBUG h light q
          = ([], q\<lparr>directionnalLights := directionnalLights q @ [light]\<rparr>))
   \<and> (light \<noteq> nullptr
        \<and> (GetLightType (light_at h light) = nzLightType_Point \<or> GetLightType (light_at h light) = nzLightType_Spot) \<longrightarrow>
        AddLight NAZARA_DEBUG h light q
          = ([], q\<lparr>visibleLights := visibleLights q @ [light]\<rparr>))
   \<and> (light \<noteq> nullptr \<and> GetLightType (light_at h light) \<noteq> nzLightType_Directional
        \<and> GetLightType (light_at h light) \<noteq> nzLightType_Point \<and> GetLightType (light_at h light) \<noteq> nzLightType_Spot \<longrightarrow>
        AddLight NAZARA_DEBUG h light q
          = (if NAZARA_DEBUG then [Light_type_not_handled (GetLightType (light_at h light))] else [], q))"
  by (simp add: AddDrawable_def AddLight_def AddModel_def NAZARA_GRAPHICS_SAFE_def
      nzLightType_Directional_def nzLightType_Point_def nzLightType_Spot_def Let_def)

theorem null_submissions_and_AddLight_witness:
  "AddLight True scene_heap 1 empty_queue = ([], empty_queue\<lparr>directionnalLights := [1]\<rparr>)
   \<and> AddLight True scene_heap 2 empty_queue = ([], empty_queue\<lparr>visibleLights := [2]\<rparr>)
   \<and> AddLight True scene_heap 3 empty_queue = ([], empty_queue\<lparr>visibleLights := [3]\<rparr>)
   \<and> AddLight True scene_heap 4 empty_queue = ([Light_type_not_handled 7], empty_queue)
   \<and> AddLight False scene_heap 4 empty_queue = ([], empty_queue)"
proof -
  have ty: "GetLightType (light_at scene_heap 1) = nzLightType_Directional"
    "GetLightType (light_at scene_heap 2) = nzLightType_Point"
    "GetLightType (light_at scene_heap 3) = nzLightType_Spot"
    "GetLightType (light_at scene_heap 4) = 7"
    by (simp_all add: scene_heap_def GetLightType_def example_light_def)
  have ne: "(1::addr) \<noteq> nullptr" "(2::addr) \<noteq> nullptr" "(3::addr) \<noteq> nullptr" "(4::addr) \<noteq> nullptr"
    by (simp_all add: nullptr_def)
  have other: "(7::int) \<noteq> nzLightType_Directional" "(7::int) \<noteq> nzLightType_Point"
    "(7::int) \<noteq> nzLightType_Spot"
    by (simp_all add: nzLightType_Directional_def nzLightType_Point_def nzLightType_Spot_def)
  have e: "directionnalLights empty_queue = []" "visibleLights empty_queue = []"
    by (simp_all add: empty_queue_def)
  have 1: "AddLight True scene_heap 1 empty_queue = ([], empty_queue\<lparr>directionnalLights := [1]\<rparr>)"
    using null_submissions_and_AddLight [of empty_queue True scene_heap 1] ty ne e by simp
  have 2: "AddLight True scene_heap 2 empty_queue = ([], empty_queue\<lparr>visibleLights := [2]\<rparr>)"
    using null_submissions_and_AddLight [of empty_queue True scene_heap 2] ty ne e by simp
  have 3: "AddLight True scene_heap 3 empty_queue = ([], empty_queue\<lparr>visibleLights := [3]\<rparr>)"
    using null_submissions_and_AddLight [of empty_queue True scene_heap 3] ty ne e by simp
  have 4: "AddLight True scene_heap 4 empty_queue = ([Light_type_not_handled 7], empty_queue)"
    using null_submissions_and_AddLight [of empty_queue True scene_heap 4] ty ne other by simp
  have 5: "AddLight False scene_heap 4 empty_queue = ([], empty_queue)"
    using null_submissions_and_AddLight [of empty_queue False scene_heap 4] ty ne other by simp
  from 1 2 3 4 5 show ?thesis by simp
qed

text \<open>
  X2.  Clear leaves the queue with every container empty, whatever was submitted before.
\<close>

theorem Clear_empties:
  "Clear q = \<lparr>directionnalLights = [], otherDrawables = [], visibleLights = [],
     visibleModels = [], visibleTransparentsModels = [],
     transparentSkeletalModels = [], transparentStaticModels = []\<rparr>"
  by (cases q) (simp add: Clear_def)

section \<open>Properties of the light\<close>

lemma min_neg_abs: "min (- r) r = - \<bar>r :: real\<bar>" "max (- r) r = \<bar>r\<bar>"
  by (auto simp: min_def max_def)

lemma point_box: "NzBoxf_Set (vec_neg (r, r, r)) (r, r, r)
    = \<lparr>box_minimum = (- \<bar>r\<bar>, - \<bar>r\<bar>, - \<bar>r\<bar>), box_maximum = (\<bar>r\<bar>, \<bar>r\<bar>, \<bar>r\<bar>)\<rparr>"
  by (simp add: NzBoxf_Set_def vec_neg_def vec_min_def vec_max_def min_neg_abs)

lemma vec_min_ac: "vec_min a b = vec_min b a" "vec_min (vec_min a b) c = vec_min a (vec_min b c)"
  "vec_min a (vec_min b c) = vec_min b (vec_min a c)"
  by (simp_all add: vec_min_def min.commute min.assoc min.left_commute)

lemma vec_max_ac: "vec_max a b = vec_max b a" "vec_max (vec_max a b) c = vec_max a (vec_max b c)"
  "vec_max a (vec_max b c) = vec_max b (vec_max a c)"
  by (simp_all add: vec_max_def max.commute max.assoc max.left_commute)

lemma ExtendTo_chain:
  "ExtendTo d (ExtendTo c (ExtendTo b (ExtendTo a (NzBoxf_at p)))) = box_around p [a, b, c, d]"
  by (simp add: ExtendTo_def NzBoxf_at_def box_around_def vec_min_ac vec_max_ac)

lemma shape_spot:
  "m_type l = nzLightType_Spot \<Longrightarrow>
   UpdateBoundingVolume_shape vm l
     = (False, l\<lparr>m_boundingVolume := Volume_Finite (spot_box_spec vm (m_radius l) (m_outerAngle l)) None\<rparr>)"
  by (simp add: UpdateBoundingVolume_shape_def spot_box_spec_def Let_def ExtendTo_chain Set_box_def
      NzDegreeToRadian_def nzLightType_Directional_def nzLightType_Point_def nzLightType_Spot_def)

lemma shape_point:
  "m_type l = nzLightType_Point \<Longrightarrow>
   UpdateBoundingVolume_shape vm l
     = (False, l\<lparr>m_boundingVolume := Volume_Finite
          \<lparr>box_minimum = (- \<bar>m_radius l\<bar>, - \<bar>m_radius l\<bar>, - \<bar>m_radius l\<bar>),
           box_maximum = (\<bar>m_radius l\<bar>, \<bar>m_radius l\<bar>, \<bar>m_radius l\<bar>)\<rparr> None\<rparr>)"
  by (simp add: UpdateBoundingVolume_shape_def Let_def Set_corners_def point_box
      nzLightType_Directional_def nzLightType_Point_def nzLightType_Spot_def)

lemma shape_directional:
  "m_type l = nzLightType_Directional \<Longrightarrow>
   UpdateBoundingVolume_shape vm l
     = (True, l\<lparr>m_boundingVolume := Volume_Infinite, m_boundingVolumeUpdated := True\<rparr>)"
  by (simp add: UpdateBoundingVolume_shape_def MakeInfinite_def)

lemma shape_other:
  "m_type l \<noteq> nzLightType_Directional \<Longrightarrow> m_type l \<noteq> nzLightType_Point \<Longrightarrow>
   m_type l \<noteq> nzLightType_Spot \<Longrightarrow> UpdateBoundingVolume_shape vm l = (False, l)"
  by (simp add: UpdateBoundingVolume_shape_def)

lemma types_distinct:
  "nzLightType_Directional \<noteq> nzLightType_Point" "nzLightType_Directional \<noteq> nzLightType_Spot"
  "nzLightType_Point \<noteq> nzLightType_Spot" "nzLightType_Point \<noteq> nzLightType_Directional"
  "nzLightType_Spot \<noteq> nzLightType_Directional" "nzLightType_Spot \<noteq> nzLightType_Point"
  by (simp_all add: nzLightType_Directional_def nzLightType_Point_def nzLightType_Spot_def)

lemma place_volume:
  "m_boundingVolume (UpdateBoundingVolume_place l) =
     (if m_type l = nzLightType_Directional then m_boundingVolume l
      else if m_type l = nzLightType_Point then
        Update (NzMatrix4f_Translate (derived_position l)) (m_boundingVolume l)
      else if m_type l = nzLightType_Spot then
        Update (NzMatrix4f_Transform (derived_position l) (derived_rotation l)) (m_boundingVolume l)
      else m_boundingVolume l)"
  by (simp add: UpdateBoundingVolume_place_def Let_def UpdateDerived_def derived_position_def
      derived_rotation_def)

lemma Update_shape: "shape_of v = Volume_Finite box None \<Longrightarrow> Update M v = Volume_Finite box (Some M)"
  by (cases v) auto

lemma UpdateBoundingVolume_volume_spec:
  assumes "cached_shape_current vm l"
  shows "m_boundingVolume (UpdateBoundingVolume vm l) = volume_spec vm l"
proof (cases "IsNull (m_boundingVolume l)")
  case True
  consider "m_type l = nzLightType_Directional" | "m_type l = nzLightType_Point"
    | "m_type l = nzLightType_Spot"
    | "m_type l \<noteq> nzLightType_Directional" "m_type l \<noteq> nzLightType_Point" "m_type l \<noteq> nzLightType_Spot"
    by blast
  then show ?thesis
  proof cases
    case 1
    with True show ?thesis by (simp add: UpdateBoundingVolume_def shape_directional volume_spec_def)
  next
    case 2
    with True show ?thesis
      by (simp add: UpdateBoundingVolume_def shape_point volume_spec_def place_volume
          derived_position_def types_distinct)
  next
    case 3
    with True show ?thesis
      by (simp add: UpdateBoundingVolume_def shape_spot volume_spec_def place_volume
          derived_position_def derived_rotation_def types_distinct)
  next
    case 4
    with True show ?thesis
      by (simp add: UpdateBoundingVolume_def shape_other volume_spec_def place_volume IsNull_def)
  qed
next
  case False
  with assms have sh: "shape_of (m_boundingVolume l) = shape_of (volume_spec vm l)"
    by (simp add: cached_shape_current_def)
  from False have U: "UpdateBoundingVolume vm l = UpdateBoundingVolume_place l"
    by (simp add: UpdateBoundingVolume_def)
  consider "m_type l = nzLightType_Directional" | "m_type l = nzLightType_Point"
    | "m_type l = nzLightType_Spot"
    | "m_type l \<noteq> nzLightType_Directional" "m_type l \<noteq> nzLightType_Point" "m_type l \<noteq> nzLightType_Spot"
    by blast
  then show ?thesis
  proof cases
    case 1
    with sh have "m_boundingVolume l = Volume_Infinite"
      by (cases "m_boundingVolume l") (simp_all add: volume_spec_def)
    with 1 show ?thesis by (simp add: U place_volume volume_spec_def)
  next
    case 2
    with sh show ?thesis
      by (simp add: U place_volume volume_spec_def types_distinct Update_shape)
  next
    case 3
    with sh show ?thesis
      by (simp add: U place_volume volume_spec_def types_distinct Update_shape)
  next
    case 4
    with sh False show ?thesis
      by (cases "m_boundingVolume l") (simp_all add: volume_spec_def IsNull_def)
  qed
qed

lemma place_idem: "UpdateBoundingVolume_place (UpdateBoundingVolume_place l) = UpdateBoundingVolume_place l"
proof -
  have U: "Update M (Update M' v) = Update M v" for M M' v by (cases v) simp_all
  show ?thesis
    by (simp add: UpdateBoundingVolume_place_def Let_def UpdateDerived_def U)
qed

lemma place_not_null:
  "\<not> IsNull (m_boundingVolume l) \<Longrightarrow> \<not> IsNull (m_boundingVolume (UpdateBoundingVolume_place l))"
  by (cases "m_boundingVolume l") (simp_all add: place_volume IsNull_def)

lemma UpdateBoundingVolume_idem:
  "UpdateBoundingVolume vm (UpdateBoundingVolume vm l) = UpdateBoundingVolume vm l"
proof (cases "IsNull (m_boundingVolume l)")
  case False
  then show ?thesis by (simp add: UpdateBoundingVolume_def place_not_null place_idem)
next
  case True
  consider "m_type l = nzLightType_Directional" | "m_type l = nzLightType_Point"
    | "m_type l = nzLightType_Spot"
    | "m_type l \<noteq> nzLightType_Directional" "m_type l \<noteq> nzLightType_Point" "m_type l \<noteq> nzLightType_Spot"
    by blast
  then show ?thesis
  proof cases
    case 1
    with True show ?thesis
      by (simp add: UpdateBoundingVolume_def shape_directional IsNull_def UpdateBoundingVolume_place_def)
  next
    case 2
    let ?l1 = "snd (UpdateBoundingVolume_shape vm l)"
    have n: "\<not> IsNull (m_boundingVolume ?l1)" using 2 by (simp add: shape_point IsNull_def)
    have "UpdateBoundingVolume vm l = UpdateBoundingVolume_place ?l1"
      using True 2 by (simp add: UpdateBoundingVolume_def shape_point)
    then show ?thesis using place_not_null [OF n] by (simp add: UpdateBoundingVolume_def place_idem)
  next
    case 3
    let ?l1 = "snd (UpdateBoundingVolume_shape vm l)"
    have n: "\<not> IsNull (m_boundingVolume ?l1)" using 3 by (simp add: shape_spot IsNull_def)
    have "UpdateBoundingVolume vm l = UpdateBoundingVolume_place ?l1"
      using True 3 by (simp add: UpdateBoundingVolume_def shape_spot)
    then show ?thesis using place_not_null [OF n] by (simp add: UpdateBoundingVolume_def place_idem)
  next
    case 4
    with True show ?thesis
      by (simp add: UpdateBoundingVolume_def shape_other UpdateBoundingVolume_place_def)
  qed
qed

lemma shape_of_volume_spec_cong:
  "m_type l' = m_type l \<Longrightarrow> m_radius l' = m_radius l \<Longrightarrow> m_outerAngle l' = m_outerAngle l \<Longrightarrow>
   shape_of (volume_spec vm l') = shape_of (volume_spec vm l)"
  by (simp add: volume_spec_def)

lemma UpdateBoundingVolume_keeps:
  "m_type (UpdateBoundingVolume vm l) = m_type l"
  "m_radius (UpdateBoundingVolume vm l) = m_radius l"
  "m_outerAngle (UpdateBoundingVolume vm l) = m_outerAngle l"
  by (simp_all add: UpdateBoundingVolume_def UpdateBoundingVolume_shape_def
      UpdateBoundingVolume_place_def UpdateDerived_def Let_def)

lemma cached_shape_current_invariant:
  "cached_shape_current vm (SetRadius radius l)"
  "cached_shape_current vm (SetOuterAngle outerAngle l)"
  "cached_shape_current vm l \<Longrightarrow> cached_shape_current vm (SetAmbientFactor x l)"
  "cached_shape_current vm l \<Longrightarrow> cached_shape_current vm (SetAttenuation x l)"
  "cached_shape_current vm l \<Longrightarrow> cached_shape_current vm (SetColor c l)"
  "cached_shape_current vm l \<Longrightarrow> cached_shape_current vm (SetDiffuseFactor x l)"
  "cached_shape_current vm l \<Longrightarrow> cached_shape_current vm (SetInnerAngle x l)"
  "cached_shape_current vm l \<Longrightarrow> cached_shape_current vm (Invalidate l)"
  "cached_shape_current vm l \<Longrightarrow> cached_shape_current vm (UpdateDerived l)"
  "cached_shape_current vm l \<Longrightarrow> cached_shape_current vm (UpdateBoundingVolume vm l)"
proof -
  show "cached_shape_current vm (SetRadius radius l)"
    by (simp add: cached_shape_current_def SetRadius_def MakeNull_def IsNull_def)
  show "cached_shape_current vm (SetOuterAngle outerAngle l)"
    by (simp add: cached_shape_current_def SetOuterAngle_def MakeNull_def IsNull_def)
  assume c: "cached_shape_current vm l"
  have keep: "cached_shape_current vm l'"
    if "m_boundingVolume l' = m_boundingVolume l" "m_type l' = m_type l"
      "m_radius l' = m_radius l" "m_outerAngle l' = m_outerAngle l" for l'
    using c that shape_of_volume_spec_cong [of l' l vm] by (simp add: cached_shape_current_def)
  show "cached_shape_current vm (SetAmbientFactor x l)"
    by (rule keep) (simp_all add: SetAmbientFactor_def)
  show "cached_shape_current vm (SetAttenuation x l)"
    by (rule keep) (simp_all add: SetAttenuation_def)
  show "cached_shape_current vm (SetColor c l)"
    by (rule keep) (simp_all add: SetColor_def)
  show "cached_shape_current vm (SetDiffuseFactor x l)"
    by (rule keep) (simp_all add: SetDiffuseFactor_def)
  show "cached_shape_current vm (SetInnerAngle x l)"
    by (rule keep) (simp_all add: SetInnerAngle_def)
  show "cached_shape_current vm (Invalidate l)"
    by (rule keep) (simp_all add: Invalidate_def NzSceneNode_Invalidate_def)
  show "cached_shape_current vm (UpdateDerived l)"
    by (rule keep) (simp_all add: UpdateDerived_def)
  show "cached_shape_current vm (UpdateBoundingVolume vm l)"
  proof -
    have "shape_of (volume_spec vm (UpdateBoundingVolume vm l)) = shape_of (volume_spec vm l)"
      by (rule shape_of_volume_spec_cong) (rule UpdateBoundingVolume_keeps)+
    with UpdateBoundingVolume_volume_spec [OF c] show ?thesis
      by (simp add: cached_shape_current_def)
  qed
qed

text \<open>
  C9, as stated, fails after SetLightType: a Point light whose volume has been read, made
  Directional and then invalidated still holds the finite box of the point light, which
  UpdateBoundingVolume places again instead of making the volume infinite (the first switch
  runs only when the cached volume is null, and SetLightType does not empty it).
\<close>

theorem UpdateBoundingVolume_after_SetLightType:
  "m_type retyped_light = nzLightType_Directional
   \<and> \<not> m_boundingVolumeUpdated retyped_light
   \<and> m_boundingVolume (UpdateBoundingVolume nazara_math retyped_light)
       = Volume_Finite \<lparr>box_minimum = (-5, -5, -5), box_maximum = (5, 5, 5)\<rparr>
           (Some (NzMatrix4f_Translate (1, 2, 3)))
   \<and> m_boundingVolume (UpdateBoundingVolume nazara_math retyped_light) \<noteq> Volume_Infinite"
proof -
  have v: "m_boundingVolume cached_point_light
       = Volume_Finite \<lparr>box_minimum = (-5, -5, -5), box_maximum = (5, 5, 5)\<rparr>
           (Some (NzMatrix4f_Translate (1, 2, 3)))"
    by (simp add: cached_point_light_def GetBoundingVolume_def example_light_def
        UpdateBoundingVolume_def UpdateBoundingVolume_shape_def UpdateBoundingVolume_place_def
        UpdateDerived_def IsNull_def Set_corners_def NzBoxf_Set_def vec_neg_def vec_min_def
        vec_max_def types_distinct Let_def)
  have t: "m_type retyped_light = nzLightType_Directional"
    and f: "\<not> m_boundingVolumeUpdated retyped_light"
    and b: "m_boundingVolume retyped_light = m_boundingVolume cached_point_light"
    by (simp_all add: retyped_light_def Invalidate_def NzSceneNode_Invalidate_def SetLightType_def)
  have "m_boundingVolume (UpdateBoundingVolume nazara_math retyped_light)
      = m_boundingVolume cached_point_light"
    by (simp add: UpdateBoundingVolume_def UpdateBoundingVolume_place_def IsNull_def t b v)
  with t f v show ?thesis by simp
qed

text \<open>
  C9, amended.  When the cached volume is null or has the shape of the light's present type, radius
  and outer angle, UpdateBoundingVolume leaves: for a Directional light the infinite volume,
  with no placement; for a Point light the symmetric box of half-extent radius around the
  origin, translated to the derived world position; for a Spot light the box that starts
  degenerate at the apex and is extended to the four far-plane corners at forward distance
  radius and half-width radius * tan(outer angle in radians), transformed by the derived
  world position and rotation.  In every state it marks the volume updated, and a second
  call changes nothing.
\<close>

theorem UpdateBoundingVolume_result:
  "(cached_shape_current vm l \<longrightarrow>
      (m_type l = nzLightType_Directional \<longrightarrow>
         m_boundingVolume (UpdateBoundingVolume vm l) = Volume_Infinite)
    \<and> (m_type l = nzLightType_Point \<longrightarrow>
         m_boundingVolume (UpdateBoundingVolume vm l)
           = Volume_Finite
               \<lparr>box_minimum = (- \<bar>m_radius l\<bar>, - \<bar>m_radius l\<bar>, - \<bar>m_radius l\<bar>),
                box_maximum = (\<bar>m_radius l\<bar>, \<bar>m_radius l\<bar>, \<bar>m_radius l\<bar>)\<rparr>
               (Some (NzMatrix4f_Translate (derived_position l))))
    \<and> (m_type l = nzLightType_Spot \<longrightarrow>
         m_boundingVolume (UpdateBoundingVolume vm l)
           = Volume_Finite (spot_box_spec vm (m_radius l) (m_outerAngle l))
               (Some (NzMatrix4f_Transform (derived_position l) (derived_rotation l)))))
   \<and> m_boundingVolumeUpdated (UpdateBoundingVolume vm l)
   \<and> UpdateBoundingVolume vm (UpdateBoundingVolume vm l) = UpdateBoundingVolume vm l"
proof (intro conjI impI)
  assume c: "cached_shape_current vm l"
  { assume "m_type l = nzLightType_Directional"
    then show "m_boundingVolume (UpdateBoundingVolume vm l) = Volume_Infinite"
      using UpdateBoundingVolume_volume_spec [OF c] by (simp add: volume_spec_def) }
  { assume "m_type l = nzLightType_Point"
    then show "m_boundingVolume (UpdateBoundingVolume vm l)
           = Volume_Finite
               \<lparr>box_minimum = (- \<bar>m_radius l\<bar>, - \<bar>m_radius l\<bar>, - \<bar>m_radius l\<bar>),
                box_maximum = (\<bar>m_radius l\<bar>, \<bar>m_radius l\<bar>, \<bar>m_radius l\<bar>)\<rparr>
               (Some (NzMatrix4f_Translate (derived_position l)))"
      using UpdateBoundingVolume_volume_spec [OF c] by (simp add: volume_spec_def types_distinct) }
  { assume "m_type l = nzLightType_Spot"
    then show "m_boundingVolume (UpdateBoundingVolume vm l)
           = Volume_Finite (spot_box_spec vm (m_radius l) (m_outerAngle l))
               (Some (NzMatrix4f_Transform (derived_position l) (derived_rotation l)))"
      using UpdateBoundingVolume_volume_spec [OF c] by (simp add: volume_spec_def types_distinct) }
next
  show "m_boundingVolumeUpdated (UpdateBoundingVolume vm l)"
    by (simp add: UpdateBoundingVolume_def UpdateBoundingVolume_shape_def
        UpdateBoundingVolume_place_def Let_def)
  show "UpdateBoundingVolume vm (UpdateBoundingVolume vm l) = UpdateBoundingVolume vm l"
    by (rule UpdateBoundingVolume_idem)
qed

theorem UpdateBoundingVolume_result_witness:
  "cached_shape_current nazara_math (example_light nzLightType_Spot)
   \<and> m_boundingVolume (UpdateBoundingVolume nazara_math (example_light nzLightType_Spot))
       = Volume_Finite \<lparr>box_minimum = (-5, -5, -5), box_maximum = (5, 5, 0)\<rparr>
           (Some (NzMatrix4f_Transform (1, 2, 3) (1, 0, 0, 0)))
   \<and> m_boundingVolume (UpdateBoundingVolume nazara_math (example_light nzLightType_Point))
       = Volume_Finite \<lparr>box_minimum = (-5, -5, -5), box_maximum = (5, 5, 5)\<rparr>
           (Some (NzMatrix4f_Translate (1, 2, 3)))
   \<and> m_boundingVolume (UpdateBoundingVolume nazara_math (example_light nzLightType_Directional))
       = Volume_Infinite"
proof -
  have c: "cached_shape_current nazara_math (example_light t)" for t
    by (simp add: cached_shape_current_def example_light_def IsNull_def)
  have box: "spot_box_spec nazara_math 5 45 = \<lparr>box_minimum = (-5, -5, -5), box_maximum = (5, 5, 0)\<rparr>"
    by (simp add: spot_box_spec_def tan_45 box_around_def nazara_math_def vec_scale_def
        vec_add_def vec_sub_def vec_min_def vec_max_def NzVector3f_Zero_def Let_def)
  have f: "m_type (example_light t) = t" "m_radius (example_light t) = 5"
    "m_outerAngle (example_light t) = 45" "derived_position (example_light t) = (1, 2, 3)"
    "derived_rotation (example_light t) = (1, 0, 0, 0)" for t
    by (simp_all add: example_light_def derived_position_def derived_rotation_def)
  have s: "m_boundingVolume (UpdateBoundingVolume nazara_math (example_light nzLightType_Spot))
       = Volume_Finite \<lparr>box_minimum = (-5, -5, -5), box_maximum = (5, 5, 0)\<rparr>
           (Some (NzMatrix4f_Transform (1, 2, 3) (1, 0, 0, 0)))"
    using UpdateBoundingVolume_result [of nazara_math "example_light nzLightType_Spot"] c
    by (simp add: f box)
  have p: "m_boundingVolume (UpdateBoundingVolume nazara_math (example_light nzLightType_Point))
       = Volume_Finite \<lparr>box_minimum = (-5, -5, -5), box_maximum = (5, 5, 5)\<rparr>
           (Some (NzMatrix4f_Translate (1, 2, 3)))"
    using UpdateBoundingVolume_result [of nazara_math "example_light nzLightType_Point"] c
    by (simp add: f)
  have d: "m_boundingVolume (UpdateBoundingVolume nazara_math (example_light nzLightType_Directional))
       = Volume_Infinite"
    using UpdateBoundingVolume_result [of nazara_math "example_light nzLightType_Directional"] c
    by (simp add: f)
  from c s p d show ?thesis by simp
qed

text \<open>The members of the spot light whose volume has been read.\<close>

lemma cached_spot_light_members:
  "m_boundingVolumeUpdated cached_spot_light"
  "m_boundingVolume cached_spot_light
     = Volume_Finite \<lparr>box_minimum = (-5, -5, -5), box_maximum = (5, 5, 0)\<rparr>
         (Some (NzMatrix4f_Transform (1, 2, 3) (1, 0, 0, 0)))"
  "m_type cached_spot_light = nzLightType_Spot" "m_radius cached_spot_light = 5"
  "m_derivedUpdated cached_spot_light" "m_derivedPosition cached_spot_light = (1, 2, 3)"
  "m_derivedRotation cached_spot_light = (1, 0, 0, 0)"
  by (simp_all add: cached_spot_light_def GetBoundingVolume_def example_light_def
        UpdateBoundingVolume_def UpdateBoundingVolume_shape_def UpdateBoundingVolume_place_def
        UpdateDerived_def IsNull_def Set_box_def ExtendTo_def NzBoxf_at_def NzVector3f_Zero_def
        NzDegreeToRadian_def nazara_math_def tan_45 vec_scale_def vec_add_def vec_sub_def
        vec_min_def vec_max_def types_distinct Let_def)

text \<open>
  C7.  SetRadius and SetOuterAngle store their argument, empty the cached volume and mark it
  stale, changing nothing else of the light; the next GetBoundingVolume returns the volume of
  the light with the new radius or outer angle, and marks it updated.  SetAmbientFactor,
  SetAttenuation, SetColor, SetDiffuseFactor, SetInnerAngle and SetLightType leave the cached
  volume, its flag and the flag of the derived transform as they were, so that a volume
  that was up to date is returned as cached, without a recompute.
\<close>

theorem bounding_volume_invalidation:
  "SetRadius radius l
     = l\<lparr>m_radius := radius, m_boundingVolume := Volume_Null, m_boundingVolumeUpdated := False\<rparr>
   \<and> fst (GetBoundingVolume vm (SetRadius radius l)) = volume_spec vm (l\<lparr>m_radius := radius\<rparr>)
   \<and> m_boundingVolumeUpdated (snd (GetBoundingVolume vm (SetRadius radius l)))
   \<and> SetOuterAngle outerAngle l
     = l\<lparr>m_outerAngle := outerAngle, m_boundingVolume := Volume_Null,
         m_boundingVolumeUpdated := False\<rparr>
   \<and> fst (GetBoundingVolume vm (SetOuterAngle outerAngle l))
       = volume_spec vm (l\<lparr>m_outerAngle := outerAngle\<rparr>)
   \<and> m_boundingVolumeUpdated (snd (GetBoundingVolume vm (SetOuterAngle outerAngle l)))
   \<and> (\<forall>setter\<in>set [SetAmbientFactor ambient, SetAttenuation attenuation, SetColor color,
                    SetDiffuseFactor diffuse, SetInnerAngle innerAngle, SetLightType type].
        m_boundingVolumeUpdated (setter l) = m_boundingVolumeUpdated l
        \<and> m_boundingVolume (setter l) = m_boundingVolume l
        \<and> m_derivedUpdated (setter l) = m_derivedUpdated l
        \<and> (m_boundingVolumeUpdated l \<longrightarrow>
             GetBoundingVolume vm (setter l) = (m_boundingVolume l, setter l)))"
proof (intro conjI)
  show "SetRadius radius l
     = l\<lparr>m_radius := radius, m_boundingVolume := Volume_Null, m_boundingVolumeUpdated := False\<rparr>"
    by (simp add: SetRadius_def MakeNull_def)
  show "SetOuterAngle outerAngle l
     = l\<lparr>m_outerAngle := outerAngle, m_boundingVolume := Volume_Null,
         m_boundingVolumeUpdated := False\<rparr>"
    by (simp add: SetOuterAngle_def MakeNull_def)
  have vr: "volume_spec vm (SetRadius radius l) = volume_spec vm (l\<lparr>m_radius := radius\<rparr>)"
    by (simp add: volume_spec_def SetRadius_def derived_position_def derived_rotation_def)
  have va: "volume_spec vm (SetOuterAngle outerAngle l) = volume_spec vm (l\<lparr>m_outerAngle := outerAngle\<rparr>)"
    by (simp add: volume_spec_def SetOuterAngle_def derived_position_def derived_rotation_def)
  have gr: "GetBoundingVolume vm (SetRadius radius l)
      = (m_boundingVolume (UpdateBoundingVolume vm (SetRadius radius l)),
         UpdateBoundingVolume vm (SetRadius radius l))"
    by (simp add: GetBoundingVolume_def SetRadius_def Let_def)
  have ga: "GetBoundingVolume vm (SetOuterAngle outerAngle l)
      = (m_boundingVolume (UpdateBoundingVolume vm (SetOuterAngle outerAngle l)),
         UpdateBoundingVolume vm (SetOuterAngle outerAngle l))"
    by (simp add: GetBoundingVolume_def SetOuterAngle_def Let_def)
  have up: "m_boundingVolumeUpdated (UpdateBoundingVolume vm k)" for k
    by (simp add: UpdateBoundingVolume_def UpdateBoundingVolume_shape_def
        UpdateBoundingVolume_place_def Let_def)
  show "fst (GetBoundingVolume vm (SetRadius radius l)) = volume_spec vm (l\<lparr>m_radius := radius\<rparr>)"
    by (simp add: gr UpdateBoundingVolume_volume_spec cached_shape_current_invariant vr)
  show "fst (GetBoundingVolume vm (SetOuterAngle outerAngle l))
       = volume_spec vm (l\<lparr>m_outerAngle := outerAngle\<rparr>)"
    by (simp add: ga UpdateBoundingVolume_volume_spec cached_shape_current_invariant va)
  show "m_boundingVolumeUpdated (snd (GetBoundingVolume vm (SetRadius radius l)))"
    by (simp add: gr up)
  show "m_boundingVolumeUpdated (snd (GetBoundingVolume vm (SetOuterAngle outerAngle l)))"
    by (simp add: ga up)
  show "\<forall>setter\<in>set [SetAmbientFactor ambient, SetAttenuation attenuation, SetColor color,
                    SetDiffuseFactor diffuse, SetInnerAngle innerAngle, SetLightType type].
        m_boundingVolumeUpdated (setter l) = m_boundingVolumeUpdated l
        \<and> m_boundingVolume (setter l) = m_boundingVolume l
        \<and> m_derivedUpdated (setter l) = m_derivedUpdated l
        \<and> (m_boundingVolumeUpdated l \<longrightarrow>
             GetBoundingVolume vm (setter l) = (m_boundingVolume l, setter l))"
    by (simp add: GetBoundingVolume_def SetAmbientFactor_def SetAttenuation_def SetColor_def
        SetDiffuseFactor_def SetInnerAngle_def SetLightType_def)
qed

theorem bounding_volume_invalidation_witness:
  "m_boundingVolumeUpdated cached_point_light
   \<and> m_boundingVolume cached_point_light
       = Volume_Finite \<lparr>box_minimum = (-5, -5, -5), box_maximum = (5, 5, 5)\<rparr>
           (Some (NzMatrix4f_Translate (1, 2, 3)))
   \<and> fst (GetBoundingVolume nazara_math (SetRadius 2 cached_point_light))
       = Volume_Finite \<lparr>box_minimum = (-2, -2, -2), box_maximum = (2, 2, 2)\<rparr>
           (Some (NzMatrix4f_Translate (1, 2, 3)))
   \<and> m_boundingVolume cached_spot_light
       = Volume_Finite \<lparr>box_minimum = (-5, -5, -5), box_maximum = (5, 5, 0)\<rparr>
           (Some (NzMatrix4f_Transform (1, 2, 3) (1, 0, 0, 0)))
   \<and> fst (GetBoundingVolume nazara_math (SetOuterAngle 0 cached_spot_light))
       = Volume_Finite \<lparr>box_minimum = (0, 0, -5), box_maximum = (0, 0, 0)\<rparr>
           (Some (NzMatrix4f_Transform (1, 2, 3) (1, 0, 0, 0)))
   \<and> GetBoundingVolume nazara_math (SetLightType nzLightType_Spot cached_point_light)
       = (m_boundingVolume cached_point_light, SetLightType nzLightType_Spot cached_point_light)"
proof -
  have u: "m_boundingVolumeUpdated cached_point_light"
    by (simp add: cached_point_light_def GetBoundingVolume_def example_light_def
        UpdateBoundingVolume_def UpdateBoundingVolume_shape_def UpdateBoundingVolume_place_def
        Let_def)
  have v: "m_boundingVolume cached_point_light
       = Volume_Finite \<lparr>box_minimum = (-5, -5, -5), box_maximum = (5, 5, 5)\<rparr>
           (Some (NzMatrix4f_Translate (1, 2, 3)))"
    by (simp add: cached_point_light_def GetBoundingVolume_def example_light_def
        UpdateBoundingVolume_def UpdateBoundingVolume_shape_def UpdateBoundingVolume_place_def
        UpdateDerived_def IsNull_def Set_corners_def NzBoxf_Set_def vec_neg_def vec_min_def
        vec_max_def types_distinct Let_def)
  have f: "m_type cached_point_light = nzLightType_Point"
    "m_derivedUpdated cached_point_light" "m_derivedPosition cached_point_light = (1, 2, 3)"
    by (simp_all add: cached_point_light_def GetBoundingVolume_def example_light_def
        UpdateBoundingVolume_def UpdateBoundingVolume_shape_def UpdateBoundingVolume_place_def
        UpdateDerived_def IsNull_def derived_position_def types_distinct Let_def)
  note t = bounding_volume_invalidation [of 2 cached_point_light nazara_math 45 0 0
      "(0, 0, 0, 0)" 0 0 nzLightType_Spot]
  have r: "fst (GetBoundingVolume nazara_math (SetRadius 2 cached_point_light))
       = Volume_Finite \<lparr>box_minimum = (-2, -2, -2), box_maximum = (2, 2, 2)\<rparr>
           (Some (NzMatrix4f_Translate (1, 2, 3)))"
    using t [THEN conjunct2, THEN conjunct1] f
    by (simp add: volume_spec_def derived_position_def types_distinct)
  have s: "GetBoundingVolume nazara_math (SetLightType nzLightType_Spot cached_point_light)
       = (m_boundingVolume cached_point_light, SetLightType nzLightType_Spot cached_point_light)"
    using t u by simp
  have box: "spot_box_spec nazara_math 5 0 = \<lparr>box_minimum = (0, 0, -5), box_maximum = (0, 0, 0)\<rparr>"
    by (simp add: spot_box_spec_def box_around_def nazara_math_def vec_scale_def
        vec_add_def vec_sub_def vec_min_def vec_max_def NzVector3f_Zero_def Let_def)
  have a: "fst (GetBoundingVolume nazara_math (SetOuterAngle 0 cached_spot_light))
       = Volume_Finite \<lparr>box_minimum = (0, 0, -5), box_maximum = (0, 0, 0)\<rparr>
           (Some (NzMatrix4f_Transform (1, 2, 3) (1, 0, 0, 0)))"
    using bounding_volume_invalidation [of 2 cached_spot_light nazara_math 0 0 0
      "(0, 0, 0, 0)" 0 0 nzLightType_Spot, THEN conjunct2, THEN conjunct2, THEN conjunct2,
      THEN conjunct2, THEN conjunct1]
    by (simp add: volume_spec_def derived_position_def derived_rotation_def types_distinct
        cached_spot_light_members box)
  from u v r s a cached_spot_light_members(2) show ?thesis by simp
qed

text \<open>
  C6.  FrustumCull answers true for a Directional light whatever the frustum; for a Point
  light it refreshes the derived transform if stale and answers whether the frustum
  contains the sphere of the light's radius around the derived world position; for a Spot
  light it brings the bounding volume up to date and answers whether the frustum contains
  that volume; for any other type value it reports an error and answers false.
\<close>

theorem FrustumCull_by_type:
  "(m_type l = nzLightType_Directional \<longrightarrow> FrustumCull vm frustum l = (True, [], l))
   \<and> (m_type l = nzLightType_Point \<longrightarrow>
        FrustumCull vm frustum l
          = (Contains_sphere frustum
               \<lparr>sphere_center = derived_position l, sphere_radius = m_radius l\<rparr>,
             [], if m_derivedUpdated l then l else UpdateDerived l))
   \<and> (m_type l = nzLightType_Spot \<longrightarrow>
        FrustumCull vm frustum l
          = (Contains_volume frustum (fst (GetBoundingVolume vm l)), [],
             snd (GetBoundingVolume vm l)))
   \<and> (m_type l \<noteq> nzLightType_Directional \<and> m_type l \<noteq> nzLightType_Point
        \<and> m_type l \<noteq> nzLightType_Spot \<longrightarrow>
        FrustumCull vm frustum l = (False, [Invalid_light_type (m_type l)], l))"
  by (simp add: FrustumCull_def GetBoundingVolume_def derived_position_def UpdateDerived_def
      types_distinct Let_def)

theorem FrustumCull_by_type_witness:
  "FrustumCull nazara_math box_frustum (example_light nzLightType_Directional)
     = (True, [], example_light nzLightType_Directional)
   \<and> fst (FrustumCull nazara_math box_frustum (example_light nzLightType_Point))
   \<and> \<not> fst (FrustumCull nazara_math box_frustum
             ((example_light nzLightType_Point)\<lparr>world_position := (100, 0, 0)\<rparr>))
   \<and> fst (FrustumCull nazara_math box_frustum (example_light nzLightType_Spot))
   \<and> FrustumCull nazara_math box_frustum (example_light 7)
       = (False, [Invalid_light_type 7], example_light 7)"
proof -
  have f: "m_type (example_light t) = t" "m_radius (example_light t) = 5"
    "derived_position (example_light t) = (1, 2, 3)"
    "derived_position ((example_light t)\<lparr>world_position := (100, 0, 0)\<rparr>) = (100, 0, 0)" for t
    by (simp_all add: example_light_def derived_position_def)
  have o: "(7::int) \<noteq> nzLightType_Directional" "(7::int) \<noteq> nzLightType_Point"
    "(7::int) \<noteq> nzLightType_Spot"
    by (simp_all add: nzLightType_Directional_def nzLightType_Point_def nzLightType_Spot_def)
  have v: "fst (GetBoundingVolume nazara_math (example_light nzLightType_Spot)) \<noteq> Volume_Null"
    by (simp add: GetBoundingVolume_def example_light_def UpdateBoundingVolume_def
        UpdateBoundingVolume_shape_def UpdateBoundingVolume_place_def UpdateDerived_def
        IsNull_def Set_box_def types_distinct Let_def)
  have 1: "FrustumCull nazara_math box_frustum (example_light nzLightType_Directional)
     = (True, [], example_light nzLightType_Directional)"
    using FrustumCull_by_type [of "example_light nzLightType_Directional" nazara_math box_frustum]
    by (simp add: f)
  have 2: "fst (FrustumCull nazara_math box_frustum (example_light nzLightType_Point))"
    using FrustumCull_by_type [of "example_light nzLightType_Point" nazara_math box_frustum]
    by (simp add: f box_frustum_def)
  have 3: "\<not> fst (FrustumCull nazara_math box_frustum
             ((example_light nzLightType_Point)\<lparr>world_position := (100, 0, 0)\<rparr>))"
    using FrustumCull_by_type [of "(example_light nzLightType_Point)\<lparr>world_position := (100, 0, 0)\<rparr>"
        nazara_math box_frustum]
    by (simp add: f box_frustum_def)
  have 4: "fst (FrustumCull nazara_math box_frustum (example_light nzLightType_Spot))"
    using FrustumCull_by_type [of "example_light nzLightType_Spot" nazara_math box_frustum] v
    by (simp add: f box_frustum_def)
  have 5: "FrustumCull nazara_math box_frustum (example_light 7)
       = (False, [Invalid_light_type 7], example_light 7)"
    using FrustumCull_by_type [of "example_light 7" nazara_math box_frustum] o
    by (simp add: f)
  from 1 2 3 4 5 show ?thesis by simp
qed


section \<open>Properties of Enable\<close>

lemma upload_other: "location \<notin> call_location ` set calls \<Longrightarrow> upload calls u location = u location"
  unfolding upload_def by (induction calls arbitrary: u) auto

lemma Enable_type: "m_type (if \<not> m_derivedUpdated l then UpdateDerived l else l) = m_type l"
  by (simp add: UpdateDerived_def)

text \<open>
  C10.  Enable sends the type, the color and the factors of the slot, and then: for a
  Directional light parameters1 only; for a Point light parameters1 and parameters2; for a
  Spot light parameters1, parameters2 and parameters3.  A location that none of its calls
  writes keeps the value it held, so parameters2 and parameters3 of the slot (where they
  are locations of their own) keep what an earlier upload left there after a Directional
  light, and parameters3 after a Point light.
\<close>

theorem Enable_writes:
  "map call_location (fst (Enable vm program lightUnit l)) =
     (let loc = Enable_locations program lightUnit in
      [typeLocation loc, colorLocation loc, factorsLocation loc]
      @ (if m_type l = nzLightType_Directional then [parameters1Location loc]
         else if m_type l = nzLightType_Point then [parameters1Location loc, parameters2Location loc]
         else if m_type l = nzLightType_Spot then
           [parameters1Location loc, parameters2Location loc, parameters3Location loc]
         else []))
   \<and> (\<forall>location. location \<notin> set (map call_location (fst (Enable vm program lightUnit l))) \<longrightarrow>
         upload (fst (Enable vm program lightUnit l)) u location = u location)"
proof
  show "map call_location (fst (Enable vm program lightUnit l)) =
     (let loc = Enable_locations program lightUnit in
      [typeLocation loc, colorLocation loc, factorsLocation loc]
      @ (if m_type l = nzLightType_Directional then [parameters1Location loc]
         else if m_type l = nzLightType_Point then [parameters1Location loc, parameters2Location loc]
         else if m_type l = nzLightType_Spot then
           [parameters1Location loc, parameters2Location loc, parameters3Location loc]
         else []))"
    by (simp add: Enable_def Let_def Enable_type)
  show "\<forall>location. location \<notin> set (map call_location (fst (Enable vm program lightUnit l))) \<longrightarrow>
         upload (fst (Enable vm program lightUnit l)) u location = u location"
    by (simp add: upload_other)
qed

theorem Enable_writes_witness:
  "map call_location (fst (Enable nazara_math example_program 1 (example_light nzLightType_Directional)))
     = [6, 7, 8, 9]
   \<and> map call_location (fst (Enable nazara_math example_program 1 (example_light nzLightType_Point)))
     = [6, 7, 8, 9, 10]
   \<and> map call_location (fst (Enable nazara_math example_program 1 (example_light nzLightType_Spot)))
     = [6, 7, 8, 9, 10, 11]
   \<and> upload (fst (Enable nazara_math example_program 1 (example_light nzLightType_Directional)))
        (upload (fst (Enable nazara_math example_program 1 (example_light nzLightType_Spot))) Map.empty) 10
       = Some (SendVector4 10 (NzVector4f_vec3_w (0, 0, -1) (1 / 5)))
   \<and> upload (fst (Enable nazara_math example_program 1 (example_light nzLightType_Directional)))
        (upload (fst (Enable nazara_math example_program 1 (example_light nzLightType_Spot))) Map.empty) 11
       = Some (SendVector2 11 (cos (NzDegreeToRadian 15), cos (NzDegreeToRadian 45)))"
proof -
  let ?spot = "fst (Enable nazara_math example_program 1 (example_light nzLightType_Spot))"
  let ?dir = "fst (Enable nazara_math example_program 1 (example_light nzLightType_Directional))"
  have loc: "Enable_locations example_program 1
     = \<lparr>typeLocation = 6, colorLocation = 7, factorsLocation = 8, parameters1Location = 9,
        parameters2Location = 10, parameters3Location = 11\<rparr>"
    by (simp add: Enable_locations_def example_program_def)
  have ty: "m_type (example_light t) = t" for t by (simp add: example_light_def)
  have d: "map call_location ?dir = [6, 7, 8, 9]"
    using Enable_writes [of nazara_math example_program 1 "example_light nzLightType_Directional"]
    by (simp add: loc ty)
  have p: "map call_location (fst (Enable nazara_math example_program 1 (example_light nzLightType_Point)))
     = [6, 7, 8, 9, 10]"
    using Enable_writes [of nazara_math example_program 1 "example_light nzLightType_Point"]
    by (simp add: loc ty types_distinct)
  have s: "map call_location ?spot = [6, 7, 8, 9, 10, 11]"
    using Enable_writes [of nazara_math example_program 1 "example_light nzLightType_Spot"]
    by (simp add: loc ty types_distinct)
  have sv: "?spot =
      [SendInteger 6 nzLightType_Spot, SendColor 7 (255, 255, 255, 255), SendVector2 8 (0, 1),
       SendVector4 9 (NzVector4f_vec3_w (1, 2, 3) 0.9),
       SendVector4 10 (NzVector4f_vec3_w (0, 0, -1) (1 / 5)),
       SendVector2 11 (cos (NzDegreeToRadian 15), cos (NzDegreeToRadian 45))]"
    by (simp add: Enable_def loc example_light_def UpdateDerived_def nazara_math_def types_distinct
        Let_def)
  have u10: "upload ?spot Map.empty 10 = Some (SendVector4 10 (NzVector4f_vec3_w (0, 0, -1) (1 / 5)))"
    and u11: "upload ?spot Map.empty 11
       = Some (SendVector2 11 (cos (NzDegreeToRadian 15), cos (NzDegreeToRadian 45)))"
    by (simp_all add: sv upload_def)
  have r10: "upload ?dir (upload ?spot Map.empty) 10 = upload ?spot Map.empty 10"
    using Enable_writes [of nazara_math example_program 1 "example_light nzLightType_Directional"
        "upload ?spot Map.empty"] d
    by simp
  have r11: "upload ?dir (upload ?spot Map.empty) 11 = upload ?spot Map.empty 11"
    using Enable_writes [of nazara_math example_program 1 "example_light nzLightType_Directional"
        "upload ?spot Map.empty"] d
    by simp
  from d p s r10 r11 u10 u11 show ?thesis by simp
qed

end
